theory Spec2Isabelle
  imports Complex_Main "HOL-Library.Multiset"
begin

section \<open>Python values\<close>

text \<open>
  A Python \<open>str\<close> is a sequence of Unicode code points, so it is modelled as a list of
  code points (\<open>nat\<close>), not of bytes: the bullet glyphs of the parser lie outside ASCII.
  \<open>ascii\<close> turns an ASCII literal of the source into such a string.
\<close>

type_synonym pystr = "nat list"

definition ascii :: "string \<Rightarrow> pystr" where
  "ascii s = map of_char s"

text \<open>
  The values found in the dictionaries that flow through the pipeline: \<open>None\<close>, a
  string, a list of strings (the bullets) and a float (the score, a real number here).
  A dictionary with string keys is a map; every key the source looks up is an ASCII literal.
\<close>

datatype pyval = PNone | PStr pystr | PList "pystr list" | PFloat real

type_synonym item = "string \<Rightarrow> pyval option"

datatype py_exception =
    TypeError
  | KeyError string
  | AttributeError
  | ValidationError
  | ApiError pystr
  | Exception pystr

text \<open>\<open>d.get(k, default)\<close>.\<close>

definition get :: "item \<Rightarrow> string \<Rightarrow> pyval \<Rightarrow> pyval" where
  "get d k dflt = (case d k of None \<Rightarrow> dflt | Some v \<Rightarrow> v)"

text \<open>Truth value of a Python object, as \<open>if not x\<close> tests it.\<close>

definition truthy :: "pyval \<Rightarrow> bool" where
  "truthy v = (case v of PNone \<Rightarrow> False | PStr s \<Rightarrow> s \<noteq> [] | PList xs \<Rightarrow> xs \<noteq> []
                | PFloat r \<Rightarrow> r \<noteq> 0)"

text \<open>\<open>sep.join(xs)\<close> on a list of strings.\<close>

fun join :: "pystr \<Rightarrow> pystr list \<Rightarrow> pystr" where
  "join sep [] = []"
| "join sep [x] = x"
| "join sep (x # y # ys) = x @ sep @ join sep (y # ys)"

text \<open>
  \<open>sep.join(v)\<close> on a value: a list of strings is joined, a string is iterated
  character by character, \<open>None\<close> and a float raise \<open>TypeError\<close>.
\<close>

definition join_val :: "pystr \<Rightarrow> pyval \<Rightarrow> py_exception + pystr" where
  "join_val sep v =
     (case v of
        PList xs \<Rightarrow> Inr (join sep xs)
      | PStr s \<Rightarrow> Inr (join sep (map (\<lambda>c. [c]) s))
      | PNone \<Rightarrow> Inl TypeError
      | PFloat r \<Rightarrow> Inl TypeError)"

text \<open>
  \<open>str.isspace\<close>: the code points \<open>str.strip()\<close> removes (the Unicode white space and
  the ASCII separators 28 to 31).
\<close>

definition isspace :: "nat \<Rightarrow> bool" where
  "isspace c = (c \<in> {9, 10, 11, 12, 13, 28, 29, 30, 31, 32, 133, 160, 5760,
                     8232, 8233, 8239, 8287, 12288} \<or> (8192 \<le> c \<and> c \<le> 8202))"

definition lstrip :: "(nat \<Rightarrow> bool) \<Rightarrow> pystr \<Rightarrow> pystr" where
  "lstrip p s = dropWhile p s"

definition rstrip :: "(nat \<Rightarrow> bool) \<Rightarrow> pystr \<Rightarrow> pystr" where
  "rstrip p s = rev (dropWhile p (rev s))"

text \<open>\<open>s.strip()\<close>.\<close>

definition strip :: "pystr \<Rightarrow> pystr" where
  "strip s = lstrip isspace (rstrip isspace s)"

text \<open>\<open>s.split('\n')\<close>: the pieces between line feeds (code point 10), empty ones kept.\<close>

fun split_nl :: "pystr \<Rightarrow> pystr list" where
  "split_nl [] = [[]]"
| "split_nl (c # cs) =
     (if c = 10 then [] # split_nl cs
      else (case split_nl cs of l # ls \<Rightarrow> (c # l) # ls | [] \<Rightarrow> [[c]]))"

text \<open>
  \<open>s.capitalize()\<close>: first character upper case, the rest lower case. Only the ASCII
  letters are mapped (Python maps every cased code point); the callers pass the ASCII
  literals \<open>"work experience"\<close> and \<open>"project"\<close>.
\<close>

definition upper_char :: "nat \<Rightarrow> nat" where
  "upper_char c = (if 97 \<le> c \<and> c \<le> 122 then c - 32 else c)"

definition lower_char :: "nat \<Rightarrow> nat" where
  "lower_char c = (if 65 \<le> c \<and> c \<le> 90 then c + 32 else c)"

definition capitalize :: "pystr \<Rightarrow> pystr" where
  "capitalize s = (case s of [] \<Rightarrow> [] | c # cs \<Rightarrow> upper_char c # map lower_char cs)"

section \<open>The text-generation endpoint\<close>

text \<open>
  The request of \<open>client.chat.completions.create\<close> and what the two clients keep of its
  response (the dictionary with \<open>content\<close> and \<open>usage\<close>). The message content may be
  \<open>None\<close>.
\<close>

record chat_request =
  model :: pystr
  messages :: "(string \<times> pystr) list"
  temperature :: real
  max_tokens :: nat
  stream :: bool

record api_response =
  content :: "pystr option"
  prompt_tokens :: nat
  completion_tokens :: nat
  total_tokens :: nat

datatype api_outcome = Returned api_response | Raised py_exception

text \<open>
  The endpoint as one caller sees it: the outcome of its \<open>n\<close>-th call (from 0) with a
  given request. What a caller does to the outside world is recorded as a trace.
\<close>

type_synonym endpoint_view = "chat_request \<Rightarrow> nat \<Rightarrow> api_outcome"

datatype api_event = ApiCall chat_request | Sleep nat

section \<open>The bullet-line parser\<close>

text \<open>The characters of \<open>lstrip('...')\<close>: bullet, asterisk, hyphen, en dash, em dash.\<close>

definition bullet_glyphs :: "nat list" where
  "bullet_glyphs = [8226, 42, 45, 8211, 8212]"

text \<open>
  The comprehension of \<open>summarize_item\<close> (services/summarizer.py, lines 107 to 109) and
  of \<open>summarize_description_bullets\<close> (Summarizer.py, lines 76 to 78):
  \<^verbatim>\<open>[line.strip().lstrip(glyphs).strip() for line in raw_summary.split('\n') if line.strip()]\<close>
\<close>

definition bullet_lines :: "pystr \<Rightarrow> pystr list" where
  "bullet_lines raw_summary =
     map (\<lambda>line. strip (lstrip (\<lambda>c. c \<in> set bullet_glyphs) (strip line)))
       (filter (\<lambda>line. strip line \<noteq> []) (split_nl raw_summary))"

text \<open>
  The parser as the specification words it, step by step in the order given: split on line
  breaks, strip each line, strip leading glyphs and surrounding white space, discard empty
  lines.
\<close>

definition spec_parse :: "pystr \<Rightarrow> pystr list" where
  "spec_parse text =
     filter (\<lambda>line. line \<noteq> [])
       (map (\<lambda>line. strip (lstrip (\<lambda>c. c \<in> set bullet_glyphs) line))
         (map strip (split_nl text)))"

text \<open>A line that holds glyphs (and white space) only.\<close>

definition glyph_only :: "pystr \<Rightarrow> bool" where
  "glyph_only line =
     (strip line \<noteq> [] \<and> strip (lstrip (\<lambda>c. c \<in> set bullet_glyphs) (strip line)) = [])"

section \<open>Process-wide state and collaborators\<close>

text \<open>
  What the backend reads from outside its own functions: the two module-level flags and
  the credential, the stored document of a r\'esum\'e, the similarity the embedding model
  gives a job description and an item text, the endpoint as the \<open>i\<close>-th task of a fan-out
  sees it, and two library functions (\<open>str()\<close> of a value that is not a string, and the
  parse of a string as a float) that the model leaves open.
\<close>

record resume_data =
  user_id :: "pystr option"
  work_experience :: "item list option"
  projects :: "item list option"

record env =
  ST_MODEL_LOADED :: bool
  DEEPSEEK_API_KEY :: "pystr option"
  find_one :: "pystr \<Rightarrow> resume_data option"
  cos_sim :: "pystr \<Rightarrow> pystr \<Rightarrow> real"
  endpoint :: "nat \<Rightarrow> endpoint_view"
  str_of :: "pyval \<Rightarrow> pystr"
  float_of :: "pystr \<Rightarrow> real option"

text \<open>
  services/summarizer.py, lines 16 to 28: the client exists when the credential is set
  and not empty, and \<open>MODEL_LOADED = client is not None\<close>.
\<close>

definition client :: "env \<Rightarrow> bool" where
  "client e = (case DEEPSEEK_API_KEY e of None \<Rightarrow> False | Some k \<Rightarrow> k \<noteq> [])"

definition MODEL_LOADED :: "env \<Rightarrow> bool" where
  "MODEL_LOADED e = client e"

text \<open>A value inside an f-string.\<close>

definition fmt :: "env \<Rightarrow> pyval \<Rightarrow> pystr" where
  "fmt e v = (case v of PStr s \<Rightarrow> s | PNone \<Rightarrow> str_of e v | PList xs \<Rightarrow> str_of e v
               | PFloat r \<Rightarrow> str_of e v)"

section \<open>The backend summarizer (services/summarizer.py)\<close>

text \<open>
  The loop \<open>for attempt in range(max_retries)\<close> of \<open>call_deepseek_api_async\<close>, over the
  attempts still to make. A loop that ends without returning makes the function return
  \<open>None\<close>.
\<close>

fun async_attempts ::
  "endpoint_view \<Rightarrow> chat_request \<Rightarrow> nat \<Rightarrow> nat list
     \<Rightarrow> (py_exception + api_response option) \<times> api_event list" where
  "async_attempts ep req max_retries [] = (Inr None, [])"
| "async_attempts ep req max_retries (attempt # rest) =
     (case ep req attempt of
        Returned response \<Rightarrow> (Inr (Some response), [ApiCall req])
      | Raised err \<Rightarrow>
          if attempt < max_retries - 1
          then (case async_attempts ep req max_retries rest of
                  (r, evs) \<Rightarrow> (r, ApiCall req # Sleep (2 ^ attempt) # evs))
          else (Inl err, [ApiCall req]))"

definition call_deepseek_api_async ::
  "env \<Rightarrow> endpoint_view \<Rightarrow> (string \<times> pystr) list \<Rightarrow> pystr
     \<Rightarrow> (py_exception + api_response option) \<times> api_event list" where
  "call_deepseek_api_async e ep msgs mdl =
     (if \<not> client e
      then (Inl (Exception (ascii ''DeepSeek client is not initialized. Check API key.'')), [])
      else
        let max_retries = 3 in
        async_attempts ep
          \<lparr>model = mdl, messages = msgs, temperature = 7 / 10, max_tokens = 512,
           stream = False\<rparr>
          max_retries [0..<max_retries])"

text \<open>Lines 69 to 72 of \<open>summarize_item\<close>.\<close>

definition item_title :: "env \<Rightarrow> item \<Rightarrow> pystr \<Rightarrow> pystr" where
  "item_title e it item_type =
     (if item_type = ascii ''work experience''
      then fmt e (get it ''job_title'' (PStr (ascii ''Job''))) @ ascii '' at '' @
           fmt e (get it ''company_name'' (PStr (ascii ''Company'')))
      else fmt e (get it ''project_name'' (PStr (ascii ''Project''))))"

text \<open>Lines 80 to 100 of \<open>summarize_item\<close>: the two messages.\<close>

definition item_messages :: "pystr \<Rightarrow> pystr \<Rightarrow> pystr \<Rightarrow> (string \<times> pystr) list" where
  "item_messages item_type title description_text =
     (let system_message = ascii ''You are a professional resume writer who creates impactful, concise bullet points that highlight technical achievements and skills.'';
          user_message =
            ascii ''Please summarize the following '' @ item_type @
            ascii '' description into 2-3 concise bullet points suitable for a resume. \<newline>Each bullet point should:\<newline>- Start with a strong action verb\<newline>- Highlight key technical skills, technologies, or achievements\<newline>- Be clear and impactful for resume readers\<newline>- Use professional, achievement-oriented language\<newline>\<newline>'' @
            capitalize item_type @ ascii '' Title: '' @ title @
            ascii ''\<newline>\<newline>Description Bullets:\<newline>'' @ description_text @
            ascii ''\<newline>\<newline>Provide only the 2-3 bullet points, nothing else. Do not include dashes or any other formatting - just the text of each point on separate lines.''
      in [(''system'', system_message), (''user'', user_message)])"

text \<open>
  \<open>summarize_item\<close>. The dictionary is changed in place and returned; the model returns
  the new dictionary. Every exception of the \<open>try\<close> block (a failed call, a response
  without text) is caught and logged, and the item is returned as it was. The join of the
  bullets stands before the \<open>try\<close>, so its \<open>TypeError\<close> leaves the function.
\<close>

definition summarize_item ::
  "env \<Rightarrow> endpoint_view \<Rightarrow> item \<Rightarrow> pystr \<Rightarrow> (py_exception + item) \<times> api_event list" where
  "summarize_item e ep it item_type =
     (let title = item_title e it item_type;
          description_bullets = get it ''description_bullets'' (PList [])
      in
        if \<not> truthy description_bullets then (Inr it, [])
        else
          (case join_val (ascii ''\<newline>'') description_bullets of
             Inl err \<Rightarrow> (Inl err, [])
           | Inr description_text \<Rightarrow>
               (case call_deepseek_api_async e ep
                       (item_messages item_type title description_text) (ascii ''deepseek-chat'') of
                  (Inr (Some response), evs) \<Rightarrow>
                    (case content response of
                       Some text \<Rightarrow>
                         (Inr (it(''description_bullets'' \<mapsto> PList (bullet_lines (strip text)))),
                          evs)
                     | None \<Rightarrow> (Inr it, evs))
                | (Inr None, evs) \<Rightarrow> (Inr it, evs)
                | (Inl err, evs) \<Rightarrow> (Inr it, evs))))"

section \<open>The standalone summarizer (Summarizer.py)\<close>

fun sync_attempts ::
  "endpoint_view \<Rightarrow> chat_request \<Rightarrow> nat \<Rightarrow> nat list
     \<Rightarrow> (py_exception + api_response option) \<times> api_event list" where
  "sync_attempts ep req max_retries [] = (Inr None, [])"
| "sync_attempts ep req max_retries (attempt # rest) =
     (case ep req attempt of
        Returned response \<Rightarrow> (Inr (Some response), [ApiCall req])
      | Raised err \<Rightarrow>
          if attempt < max_retries - 1
          then (case sync_attempts ep req max_retries rest of
                  (r, evs) \<Rightarrow> (r, ApiCall req # Sleep (2 ^ attempt) # evs))
          else (Inl err, [ApiCall req]))"

definition call_deepseek_api ::
  "endpoint_view \<Rightarrow> (string \<times> pystr) list \<Rightarrow> pystr
     \<Rightarrow> (py_exception + api_response option) \<times> api_event list" where
  "call_deepseek_api ep msgs mdl =
     (let max_retries = 3 in
      sync_attempts ep
        \<lparr>model = mdl, messages = msgs, temperature = 7 / 10, max_tokens = 512,
         stream = False\<rparr>
        max_retries [0..<max_retries])"

text \<open>
  The dictionary \<open>summarize_description_bullets\<close> returns; \<open>error\<close> holds the exception
  where the source holds its text.
\<close>

record summary_result =
  bullets :: "pystr list"
  input_tokens :: nat
  output_tokens :: nat
  success :: bool
  error :: "py_exception option"

definition summarize_description_bullets ::
  "endpoint_view \<Rightarrow> pystr \<Rightarrow> pystr list \<Rightarrow> pystr \<Rightarrow> summary_result \<times> api_event list" where
  "summarize_description_bullets ep title description_bullets item_type =
     (let system_message = ascii ''You are a professional resume writer who creates impactful, concise bullet points that highlight technical achievements and skills.'';
          description_text = join (ascii ''\<newline>'') description_bullets;
          user_message =
            ascii ''Please summarize the following '' @ item_type @
            ascii '' description into 2-3 concise bullet points suitable for a resume. \<newline>Each bullet point should:\<newline>- Start with a strong action verb\<newline>- Highlight key technical skills, technologies, or achievements\<newline>- Be clear and impactful for resume readers\<newline>- Use professional, achievement-oriented language\<newline>\<newline>'' @
            capitalize item_type @ ascii '' Title: '' @ title @
            ascii ''\<newline>\<newline>Description Bullets:\<newline>'' @ description_text @
            ascii ''\<newline>\<newline>Provide only the 2-3 bullet points, nothing else. Do not include dashes or any other formatting - just the text of each point on separate lines.'';
          msgs = [(''system'', system_message), (''user'', user_message)];
          failed = (\<lambda>err. \<lparr>bullets = [], input_tokens = 0, output_tokens = 0, success = False,
                             error = Some err\<rparr>)
      in
        (case call_deepseek_api ep msgs (ascii ''deepseek-chat'') of
           (Inr (Some response), evs) \<Rightarrow>
             (case content response of
                Some text \<Rightarrow>
                  (\<lparr>bullets = bullet_lines (strip text),
                    input_tokens = prompt_tokens response,
                    output_tokens = completion_tokens response,
                    success = True, error = None\<rparr>, evs)
              | None \<Rightarrow> (failed AttributeError, evs))
         | (Inr None, evs) \<Rightarrow> (failed TypeError, evs)
         | (Inl err, evs) \<Rightarrow> (failed err, evs)))"

section \<open>The ranking endpoint (routes/resume.py)\<close>

text \<open>
  The response models. \<open>RankedWorkExperience\<close> and \<open>RankedProject\<close> both have the fields
  \<open>description_bullets\<close> and \<open>score\<close>; the record fields carry a prefix to keep them apart.
\<close>

record RankedWorkExperience =
  work_ex_id :: pystr
  job_title :: pystr
  company_name :: pystr
  location :: "pystr option"
  start_date :: "pystr option"
  end_date :: "pystr option"
  we_description_bullets :: "pystr list option"
  we_score :: real

record RankedProject =
  project_id :: pystr
  project_name :: pystr
  repository_url :: "pystr option"
  pr_description_bullets :: "pystr list option"
  pr_score :: real

record RankResponse =
  top_work_experiences :: "RankedWorkExperience list"
  top_projects :: "RankedProject list"

text \<open>
  How a request ends when it does not return a response: an \<open>HTTPException\<close> with its
  status code (the detail text is left out), or an exception no handler catches.
\<close>

datatype http_error = HTTPException nat | Unhandled py_exception

text \<open>What the endpoint does to the outside world, in order.\<close>

datatype event = Fetch pystr | Encode "pystr list" | Task nat api_event

definition bindE :: "'e + 'a \<Rightarrow> ('a \<Rightarrow> 'e + 'b) \<Rightarrow> 'e + 'b" where
  "bindE m f = (case m of Inl err \<Rightarrow> Inl err | Inr x \<Rightarrow> f x)"

subsection \<open>Validation of the response models\<close>

text \<open>
  \<open>model_validate\<close> of a dictionary: a \<open>str\<close> field takes a string, an optional field
  also \<open>None\<close> or a missing key, the float field a float or a string that parses as one;
  keys that are no field are ignored; any field that fails makes a \<open>ValidationError\<close>.
\<close>

definition str_field :: "pyval option \<Rightarrow> py_exception + pystr" where
  "str_field v = (case v of Some (PStr s) \<Rightarrow> Inr s | _ \<Rightarrow> Inl ValidationError)"

definition opt_str_field :: "pyval option \<Rightarrow> py_exception + pystr option" where
  "opt_str_field v =
     (case v of None \<Rightarrow> Inr None | Some PNone \<Rightarrow> Inr None | Some (PStr s) \<Rightarrow> Inr (Some s)
      | _ \<Rightarrow> Inl ValidationError)"

definition opt_list_field :: "pyval option \<Rightarrow> py_exception + pystr list option" where
  "opt_list_field v =
     (case v of None \<Rightarrow> Inr None | Some PNone \<Rightarrow> Inr None | Some (PList xs) \<Rightarrow> Inr (Some xs)
      | _ \<Rightarrow> Inl ValidationError)"

definition float_field :: "env \<Rightarrow> pyval option \<Rightarrow> py_exception + real" where
  "float_field e v =
     (case v of
        Some (PFloat r) \<Rightarrow> Inr r
      | Some (PStr s) \<Rightarrow> (case float_of e s of Some r \<Rightarrow> Inr r | None \<Rightarrow> Inl ValidationError)
      | _ \<Rightarrow> Inl ValidationError)"

definition validate_RankedWorkExperience ::
  "env \<Rightarrow> item \<Rightarrow> py_exception + RankedWorkExperience" where
  "validate_RankedWorkExperience e it =
     (case (str_field (it ''work_ex_id''), str_field (it ''job_title''),
            str_field (it ''company_name''), opt_str_field (it ''location''),
            opt_str_field (it ''start_date''), opt_str_field (it ''end_date''),
            opt_list_field (it ''description_bullets''), float_field e (it ''score'')) of
        (Inr i, Inr t, Inr c, Inr l, Inr sd, Inr ed, Inr bs, Inr sc) \<Rightarrow>
          Inr \<lparr>work_ex_id = i, job_title = t, company_name = c, location = l,
               start_date = sd, end_date = ed, we_description_bullets = bs, we_score = sc\<rparr>
      | _ \<Rightarrow> Inl ValidationError)"

definition validate_RankedProject :: "env \<Rightarrow> item \<Rightarrow> py_exception + RankedProject" where
  "validate_RankedProject e it =
     (case (str_field (it ''project_id''), str_field (it ''project_name''),
            opt_str_field (it ''repository_url''),
            opt_list_field (it ''description_bullets''), float_field e (it ''score'')) of
        (Inr i, Inr n, Inr u, Inr bs, Inr sc) \<Rightarrow>
          Inr \<lparr>project_id = i, project_name = n, repository_url = u,
               pr_description_bullets = bs, pr_score = sc\<rparr>
      | _ \<Rightarrow> Inl ValidationError)"

subsection \<open>The steps of the endpoint\<close>

text \<open>
  \<open>ObjectId(resume_id)\<close>: 24 hexadecimal digits, or \<open>InvalidId\<close> (\<open>None\<close> here). Two
  spellings that differ in letter case name the same identifier. The library also takes a
  24-character string with white space between pairs of digits, which names no stored
  document; the model refuses it.
\<close>

definition is_hex :: "nat \<Rightarrow> bool" where
  "is_hex c = ((48 \<le> c \<and> c \<le> 57) \<or> (65 \<le> c \<and> c \<le> 70) \<or> (97 \<le> c \<and> c \<le> 102))"

definition ObjectId :: "pystr \<Rightarrow> pystr option" where
  "ObjectId s = (if length s = 24 \<and> list_all is_hex s then Some (map lower_char s) else None)"

text \<open>
  Lines 424 to 430: one loop per collection, each appending
  \<open>(category, item, ". ".join(item.get('description_bullets', [])))\<close>.
\<close>

fun collect_items :: "string \<Rightarrow> item list \<Rightarrow> py_exception + (string \<times> item \<times> pystr) list" where
  "collect_items category [] = Inr []"
| "collect_items category (it # rest) =
     bindE (join_val (ascii ''. '') (get it ''description_bullets'' (PList [])))
       (\<lambda>combined_text.
          bindE (collect_items category rest)
            (\<lambda>others. Inr ((category, it, combined_text) # others)))"

definition items_to_rank :: "resume_data \<Rightarrow> py_exception + (string \<times> item \<times> pystr) list" where
  "items_to_rank rd =
     bindE (collect_items ''Work Ex'' (case work_experience rd of None \<Rightarrow> [] | Some xs \<Rightarrow> xs))
       (\<lambda>ws.
          bindE (collect_items ''Project'' (case projects rd of None \<Rightarrow> [] | Some xs \<Rightarrow> xs))
            (\<lambda>ps. Inr (ws @ ps)))"

text \<open>
  Lines 437 to 449: every item gets its score, written into the dictionary as well, and
  the list is sorted by \<open>sort(key=score, reverse=True)\<close>: descending, and stable (equal
  scores keep their order).
\<close>

definition scored_items ::
  "env \<Rightarrow> pystr \<Rightarrow> (string \<times> item \<times> pystr) list \<Rightarrow> (real \<times> string \<times> item) list" where
  "scored_items e job_description items =
     map (\<lambda>(category, original_object, text).
            let score = cos_sim e job_description text
            in (score, category, original_object(''score'' \<mapsto> PFloat score)))
       items"

definition ranked_items ::
  "env \<Rightarrow> pystr \<Rightarrow> (string \<times> item \<times> pystr) list \<Rightarrow> (real \<times> string \<times> item) list" where
  "ranked_items e job_description items =
     sort_key (\<lambda>x. - fst x) (scored_items e job_description items)"

text \<open>Lines 452 to 459: the filtering loop, with its two growing lists.\<close>

fun top_items ::
  "(real \<times> string \<times> item) list \<Rightarrow> item list \<Rightarrow> item list \<Rightarrow> item list \<times> item list" where
  "top_items [] top_work_ex_items top_project_items = (top_work_ex_items, top_project_items)"
| "top_items ((score, category, item_data) # rest) top_work_ex_items top_project_items =
     (if category = ''Work Ex'' \<and> length top_work_ex_items < 2
      then top_items rest (top_work_ex_items @ [item_data]) top_project_items
      else if category = ''Project'' \<and> length top_project_items < 3
      then top_items rest top_work_ex_items (top_project_items @ [item_data])
      else top_items rest top_work_ex_items top_project_items)"

text \<open>
  Lines 464 to 472: one task per selected item, the work experiences first, and
  \<open>asyncio.gather\<close>, which returns the results in the order of the tasks. Task \<open>i\<close> talks to
  the endpoint through its own view. The tasks run interleaved; each works on a dictionary
  of its own, so the results do not depend on the schedule, and the trace lists the tasks'
  events one task after the other.
\<close>

definition tasks :: "item list \<Rightarrow> item list \<Rightarrow> (item \<times> pystr) list" where
  "tasks top_work_ex_items top_project_items =
     map (\<lambda>it. (it, ascii ''work experience'')) top_work_ex_items @
     map (\<lambda>it. (it, ascii ''project'')) top_project_items"

definition run_tasks ::
  "env \<Rightarrow> (item \<times> pystr) list \<Rightarrow> ((py_exception + item) \<times> api_event list) list" where
  "run_tasks e ts =
     map (\<lambda>(i, (it, item_type)). summarize_item e (endpoint e i) it item_type)
       (enumerate 0 ts)"

fun all_results :: "(py_exception + item) list \<Rightarrow> py_exception + item list" where
  "all_results [] = Inr []"
| "all_results (r # rs) =
     bindE r (\<lambda>it. bindE (all_results rs) (\<lambda>others. Inr (it # others)))"

definition gather ::
  "env \<Rightarrow> (item \<times> pystr) list \<Rightarrow> (py_exception + item list) \<times> event list" where
  "gather e ts =
     (let outcomes = run_tasks e ts
      in (all_results (map fst outcomes),
          concat (map (\<lambda>(i, out). map (Task i) (snd out)) (enumerate 0 outcomes))))"

text \<open>
  Lines 480 and 481: the set of the identifiers of the selected items. A missing key is a
  \<open>KeyError\<close>, a list cannot be hashed.
\<close>

fun id_set :: "string \<Rightarrow> item list \<Rightarrow> py_exception + pyval set" where
  "id_set key [] = Inr {}"
| "id_set key (it # rest) =
     (case it key of
        None \<Rightarrow> Inl (KeyError key)
      | Some (PList xs) \<Rightarrow> Inl TypeError
      | Some v \<Rightarrow> bindE (id_set key rest) (\<lambda>ids. Inr (insert v ids)))"

text \<open>\<open>key in item and item[key] in ids\<close>.\<close>

definition has_id :: "item \<Rightarrow> string \<Rightarrow> pyval set \<Rightarrow> py_exception + bool" where
  "has_id it key ids =
     (case it key of
        None \<Rightarrow> Inr False
      | Some (PList xs) \<Rightarrow> Inl TypeError
      | Some v \<Rightarrow> Inr (v \<in> ids))"

text \<open>Lines 483 to 487: every result goes to the list its identifier names.\<close>

fun final_lists ::
  "env \<Rightarrow> pyval set \<Rightarrow> pyval set \<Rightarrow> item list
     \<Rightarrow> py_exception + RankedWorkExperience list \<times> RankedProject list" where
  "final_lists e work_ex_ids project_ids [] = Inr ([], [])"
| "final_lists e work_ex_ids project_ids (it # rest) =
     bindE (has_id it ''work_ex_id'' work_ex_ids)
       (\<lambda>is_work_ex.
          if is_work_ex
          then bindE (validate_RankedWorkExperience e it)
                 (\<lambda>w. bindE (final_lists e work_ex_ids project_ids rest)
                         (\<lambda>(final_work_ex, final_projects). Inr (w # final_work_ex, final_projects)))
          else bindE (has_id it ''project_id'' project_ids)
                 (\<lambda>is_project.
                    if is_project
                    then bindE (validate_RankedProject e it)
                           (\<lambda>p. bindE (final_lists e work_ex_ids project_ids rest)
                                   (\<lambda>(final_work_ex, final_projects).
                                      Inr (final_work_ex, p # final_projects)))
                    else final_lists e work_ex_ids project_ids rest))"

text \<open>Lines 476 to 496, given the selected lists and the results of the join.\<close>

definition final_response ::
  "env \<Rightarrow> item list \<Rightarrow> item list \<Rightarrow> item list \<Rightarrow> py_exception + RankResponse" where
  "final_response e top_work_ex_items top_project_items summarized_results =
     bindE (id_set ''work_ex_id'' top_work_ex_items)
       (\<lambda>work_ex_ids.
          bindE (id_set ''project_id'' top_project_items)
            (\<lambda>project_ids.
               bindE (final_lists e work_ex_ids project_ids summarized_results)
                 (\<lambda>(final_work_ex, final_projects).
                    Inr \<lparr>top_work_experiences = sort_key (\<lambda>x. - we_score x) final_work_ex,
                         top_projects = sort_key (\<lambda>x. - pr_score x) final_projects\<rparr>)))"

text \<open>
  The \<open>try\<close> block, lines 435 to 496. The selected lists hold the very dictionaries the
  tasks change, so after the join \<open>top_work_ex_items\<close> are the first results and
  \<open>top_project_items\<close> the others.
\<close>

definition rank_and_summarize ::
  "env \<Rightarrow> pystr \<Rightarrow> (string \<times> item \<times> pystr) list \<Rightarrow> (py_exception + RankResponse) \<times> event list" where
  "rank_and_summarize e job_description items =
     (let item_descriptions = map (\<lambda>(category, it, text). text) items;
          ranked = ranked_items e job_description items;
          (top_work_ex_items, top_project_items) = top_items ranked [] [];
          (summarized_results, evs) = gather e (tasks top_work_ex_items top_project_items)
      in (bindE summarized_results
            (\<lambda>results.
               final_response e (take (length top_work_ex_items) results)
                 (drop (length top_work_ex_items) results) results),
          Encode [job_description] # Encode item_descriptions # evs))"

text \<open>
  \<open>rank_and_summarize_resume_items\<close>, lines 386 to 503. \<open>current_user_id\<close> is
  \<open>current_user["user_id"]\<close>, which the authentication dependency always sets.
\<close>

definition rank_and_summarize_resume_items ::
  "env \<Rightarrow> pystr \<Rightarrow> pystr \<Rightarrow> pystr \<Rightarrow> (http_error + RankResponse) \<times> event list" where
  "rank_and_summarize_resume_items e resume_id job_description current_user_id =
     (if \<not> ST_MODEL_LOADED e then (Inl (HTTPException 503), [])
      else if \<not> MODEL_LOADED e then (Inl (HTTPException 503), [])
      else
        (case ObjectId resume_id of
           None \<Rightarrow> (Inl (HTTPException 400), [])
         | Some object_id_to_find \<Rightarrow>
             (case find_one e object_id_to_find of
                None \<Rightarrow> (Inl (HTTPException 404), [Fetch object_id_to_find])
              | Some rd \<Rightarrow>
                  if user_id rd = None \<and> work_experience rd = None \<and> projects rd = None
                  then (Inl (HTTPException 404), [Fetch object_id_to_find])
                  else if user_id rd \<noteq> Some current_user_id
                  then (Inl (HTTPException 403), [Fetch object_id_to_find])
                  else
                    (case items_to_rank rd of
                       Inl err \<Rightarrow> (Inl (Unhandled err), [Fetch object_id_to_find])
                     | Inr items \<Rightarrow>
                         if items = []
                         then (Inr \<lparr>top_work_experiences = [], top_projects = []\<rparr>,
                               [Fetch object_id_to_find])
                         else
                           (case rank_and_summarize e job_description items of
                              (Inl err, evs) \<Rightarrow>
                                (Inl (HTTPException 500), Fetch object_id_to_find # evs)
                            | (Inr response, evs) \<Rightarrow>
                                (Inr response, Fetch object_id_to_find # evs))))))"

section \<open>Notions used in the statements\<close>

text \<open>The category, score and dictionary of a ranked entry.\<close>

definition is_work_ex :: "real \<times> string \<times> item \<Rightarrow> bool" where
  "is_work_ex x = (fst (snd x) = ''Work Ex'')"

definition is_project :: "real \<times> string \<times> item \<Rightarrow> bool" where
  "is_project x = (fst (snd x) = ''Project'')"

definition item_data :: "real \<times> string \<times> item \<Rightarrow> item" where
  "item_data x = snd (snd x)"

text \<open>A list of scores in descending order.\<close>

definition descending :: "real list \<Rightarrow> bool" where
  "descending xs = sorted_wrt (\<lambda>a b. b \<le> a) xs"

text \<open>The delays slept and the calls made, read off a trace.\<close>

definition delays :: "api_event list \<Rightarrow> nat list" where
  "delays evs = concat (map (\<lambda>ev. case ev of Sleep d \<Rightarrow> [d] | ApiCall req \<Rightarrow> []) evs)"

definition calls :: "api_event list \<Rightarrow> chat_request list" where
  "calls evs = concat (map (\<lambda>ev. case ev of ApiCall req \<Rightarrow> [req] | Sleep d \<Rightarrow> []) evs)"

definition is_raised :: "api_outcome \<Rightarrow> bool" where
  "is_raised out = (case out of Raised err \<Rightarrow> True | Returned response \<Rightarrow> False)"

text \<open>
  The shape in which \<open>create_resume\<close> stores an item (the dump of a \<open>WorkExperience\<close> or
  of a \<open>Project\<close>): the required fields are strings, the optional ones strings or
  \<open>None\<close>, the bullets a list; a project has no \<open>work_ex_id\<close>.
\<close>

definition is_str :: "pyval option \<Rightarrow> bool" where
  "is_str v = (case v of Some (PStr s) \<Rightarrow> True | _ \<Rightarrow> False)"

definition is_opt_str :: "pyval option \<Rightarrow> bool" where
  "is_opt_str v = (case v of None \<Rightarrow> True | Some PNone \<Rightarrow> True | Some (PStr s) \<Rightarrow> True
                   | _ \<Rightarrow> False)"

definition is_list :: "pyval option \<Rightarrow> bool" where
  "is_list v = (case v of Some (PList xs) \<Rightarrow> True | _ \<Rightarrow> False)"

definition stored_work_ex :: "item \<Rightarrow> bool" where
  "stored_work_ex it =
     (is_str (it ''work_ex_id'') \<and> is_str (it ''job_title'') \<and> is_str (it ''company_name'') \<and>
      is_opt_str (it ''location'') \<and> is_opt_str (it ''start_date'') \<and>
      is_opt_str (it ''end_date'') \<and> is_list (it ''description_bullets''))"

definition stored_project :: "item \<Rightarrow> bool" where
  "stored_project it =
     (it ''work_ex_id'' = None \<and> is_str (it ''project_id'') \<and> is_str (it ''project_name'') \<and>
      is_opt_str (it ''repository_url'') \<and> is_list (it ''description_bullets''))"

definition stored_resume :: "resume_data \<Rightarrow> bool" where
  "stored_resume rd =
     (list_all stored_work_ex (case work_experience rd of None \<Rightarrow> [] | Some xs \<Rightarrow> xs) \<and>
      list_all stored_project (case projects rd of None \<Rightarrow> [] | Some xs \<Rightarrow> xs))"

text \<open>The string and the bullets under a key, and the text an item is ranked by.\<close>

definition str_at :: "item \<Rightarrow> string \<Rightarrow> pystr" where
  "str_at it k = (case it k of Some (PStr s) \<Rightarrow> s | _ \<Rightarrow> [])"

definition bullets_of :: "item \<Rightarrow> pystr list" where
  "bullets_of it = (case it ''description_bullets'' of Some (PList xs) \<Rightarrow> xs | _ \<Rightarrow> [])"

definition text_of :: "item \<Rightarrow> pystr" where
  "text_of it = join (ascii ''. '') (bullets_of it)"

text \<open>
  The record a stored item with a score validates to (see \<open>validate_work_stored\<close> and
  \<open>validate_project_stored\<close> below).
\<close>

definition opt_str_at :: "item \<Rightarrow> string \<Rightarrow> pystr option" where
  "opt_str_at it k = (case it k of Some (PStr s) \<Rightarrow> Some s | _ \<Rightarrow> None)"

definition score_at :: "item \<Rightarrow> real" where
  "score_at it = (case it ''score'' of Some (PFloat r) \<Rightarrow> r | _ \<Rightarrow> 0)"

definition has_score :: "item \<Rightarrow> bool" where
  "has_score it = (case it ''score'' of Some (PFloat r) \<Rightarrow> True | _ \<Rightarrow> False)"

definition work_record :: "item \<Rightarrow> RankedWorkExperience" where
  "work_record it =
     \<lparr>work_ex_id = str_at it ''work_ex_id'', job_title = str_at it ''job_title'',
      company_name = str_at it ''company_name'', location = opt_str_at it ''location'',
      start_date = opt_str_at it ''start_date'', end_date = opt_str_at it ''end_date'',
      we_description_bullets = Some (bullets_of it), we_score = score_at it\<rparr>"

definition project_record :: "item \<Rightarrow> RankedProject" where
  "project_record it =
     \<lparr>project_id = str_at it ''project_id'', project_name = str_at it ''project_name'',
      repository_url = opt_str_at it ''repository_url'',
      pr_description_bullets = Some (bullets_of it), pr_score = score_at it\<rparr>"

text \<open>The items a request selects, and the dictionary task \<open>i\<close> hands back for an item.\<close>

definition selected :: "env \<Rightarrow> pystr \<Rightarrow> resume_data \<Rightarrow> item list \<times> item list" where
  "selected e job_description rd =
     (case items_to_rank rd of
        Inr items \<Rightarrow> top_items (ranked_items e job_description items) [] []
      | Inl err \<Rightarrow> ([], []))"

definition summarized :: "env \<Rightarrow> nat \<Rightarrow> item \<Rightarrow> pystr \<Rightarrow> item" where
  "summarized e i it item_type =
     (case fst (summarize_item e (endpoint e i) it item_type) of
        Inr it' \<Rightarrow> it'
      | Inl err \<Rightarrow> it)"

text \<open>The two collections of a stored r\'esum\'e, a missing key read as the empty list.\<close>

definition ws_of :: "resume_data \<Rightarrow> item list" where
  "ws_of rd = (case work_experience rd of None \<Rightarrow> [] | Some xs \<Rightarrow> xs)"

definition ps_of :: "resume_data \<Rightarrow> item list" where
  "ps_of rd = (case projects rd of None \<Rightarrow> [] | Some xs \<Rightarrow> xs)"

text \<open>
  What holds of every entry of the ranking of a stored r\'esum\'e: its score is the
  similarity of its text, the dictionary carries that score, and the dictionary has the
  stored shape of its category.
\<close>

definition ranked_entry :: "env \<Rightarrow> pystr \<Rightarrow> real \<times> string \<times> item \<Rightarrow> bool" where
  "ranked_entry e jd x =
     (fst x = cos_sim e jd (text_of (item_data x)) \<and>
      item_data x ''score'' = Some (PFloat (fst x)) \<and>
      (if is_work_ex x then stored_work_ex (item_data x)
       else is_project x \<and> stored_project (item_data x)))"

text \<open>
  The results of the join for the selected lists: task \<open>i\<close> summarizes the \<open>i\<close>-th work
  experience, task \<open>n + j\<close> the \<open>j\<close>-th project, where \<open>n\<close> work experiences were selected.
\<close>

definition work_results :: "env \<Rightarrow> item list \<Rightarrow> item list" where
  "work_results e wx =
     map (\<lambda>(i, it). summarized e i it (ascii ''work experience'')) (enumerate 0 wx)"

definition project_results :: "env \<Rightarrow> nat \<Rightarrow> item list \<Rightarrow> item list" where
  "project_results e n pj =
     map (\<lambda>(i, it). summarized e i it (ascii ''project'')) (enumerate n pj)"




text \<open>The request both clients build from the messages and the model name.\<close>

definition request_of :: "(string \<times> pystr) list \<Rightarrow> pystr \<Rightarrow> chat_request" where
  "request_of msgs mdl =
     \<lparr>model = mdl, messages = msgs, temperature = 7 / 10, max_tokens = 512, stream = False\<rparr>"

text \<open>The request \<open>summarize_item\<close> sends for an item whose bullets are a list.\<close>

definition item_request :: "env \<Rightarrow> item \<Rightarrow> pystr \<Rightarrow> chat_request" where
  "item_request e it item_type =
     request_of
       (item_messages item_type (item_title e it item_type)
          (join (ascii ''\<newline>'') (bullets_of it)))
       (ascii ''deepseek-chat'')"

text \<open>The lines of a text that are not blank, stripped.\<close>

definition stripped_lines :: "pystr \<Rightarrow> pystr list" where
  "stripped_lines text = filter (\<lambda>line. line \<noteq> []) (map strip (split_nl text))"

section \<open>Example data\<close>

definition work_item :: "pystr \<Rightarrow> pystr \<Rightarrow> pystr \<Rightarrow> pystr list \<Rightarrow> item" where
  "work_item i t c bs =
     [''work_ex_id'' \<mapsto> PStr i, ''job_title'' \<mapsto> PStr t, ''company_name'' \<mapsto> PStr c,
      ''location'' \<mapsto> PNone, ''start_date'' \<mapsto> PNone, ''end_date'' \<mapsto> PNone,
      ''description_bullets'' \<mapsto> PList bs]"

definition project_item :: "pystr \<Rightarrow> pystr \<Rightarrow> pystr list \<Rightarrow> item" where
  "project_item i n bs =
     [''project_id'' \<mapsto> PStr i, ''project_name'' \<mapsto> PStr n, ''repository_url'' \<mapsto> PNone,
      ''description_bullets'' \<mapsto> PList bs]"

definition empty_item :: item where
  "empty_item = project_item (ascii ''p0'') (ascii ''Maze'') []"

definition example_resume :: resume_data where
  "example_resume =
     \<lparr>user_id = Some (ascii ''u1''),
      work_experience =
        Some [work_item (ascii ''w1'') (ascii ''Dev'') (ascii ''TCS'') [ascii ''aa''],
              work_item (ascii ''w2'') (ascii ''Lead'') (ascii ''IBM'') [ascii ''b'']],
      projects = Some [project_item (ascii ''p1'') (ascii ''Maze'') [ascii ''ccc'']]\<rparr>"

text \<open>A ranking with five work experiences and one project.\<close>

definition example_ranked :: "(real \<times> string \<times> item) list" where
  "example_ranked =
     [(9 / 10, ''Work Ex'', work_item (ascii ''w1'') [] [] []),
      (8 / 10, ''Project'', project_item (ascii ''p1'') [] []),
      (5 / 10, ''Work Ex'', work_item (ascii ''w2'') [] [] []),
      (5 / 10, ''Work Ex'', work_item (ascii ''w3'') [] [] []),
      (2 / 10, ''Work Ex'', work_item (ascii ''w4'') [] [] []),
      (1 / 10, ''Work Ex'', work_item (ascii ''w5'') [] [] [])]"

definition empty_resume :: resume_data where
  "empty_resume = \<lparr>user_id = Some (ascii ''u1''), work_experience = Some [], projects = None\<rparr>"

definition example_id :: pystr where
  "example_id = ascii ''0123456789abcdef01234567''"

definition ok_response :: api_response where
  "ok_response =
     \<lparr>content = Some (ascii ''- Led Z''), prompt_tokens = 10, completion_tokens = 3,
      total_tokens = 13\<rparr>"

text \<open>
  An environment in which everything is in place; the longer an item's text, the higher its
  score; the first task of a fan-out never gets an answer, the others get one at once.
\<close>

definition example_env :: "resume_data \<Rightarrow> env" where
  "example_env rd =
     \<lparr>ST_MODEL_LOADED = True, DEEPSEEK_API_KEY = Some (ascii ''sk''),
      find_one = (\<lambda>oid. if oid = example_id then Some rd else None),
      cos_sim = (\<lambda>jd text. real (length text) / 10),
      endpoint = (\<lambda>i req n. if i = 0 then Raised (ApiError (ascii ''timeout''))
                             else Returned ok_response),
      str_of = (\<lambda>v. []), float_of = (\<lambda>s. None)\<rparr>"

definition failing_view :: endpoint_view where
  "failing_view req n = Raised (ApiError [n])"

definition answering_view :: endpoint_view where
  "answering_view req n = Returned ok_response"

text \<open>
  What the example r\'esum\'e's request selects: both work experiences and the project, each
  with its score.
\<close>

definition example_wx :: "item list" where
  "example_wx =
     [(work_item (ascii ''w1'') (ascii ''Dev'') (ascii ''TCS'') [ascii ''aa''])
        (''score'' \<mapsto> PFloat (2 / 10)),
      (work_item (ascii ''w2'') (ascii ''Lead'') (ascii ''IBM'') [ascii ''b''])
        (''score'' \<mapsto> PFloat (1 / 10))]"

definition example_pj :: "item list" where
  "example_pj =
     [(project_item (ascii ''p1'') (ascii ''Maze'') [ascii ''ccc''])
        (''score'' \<mapsto> PFloat (3 / 10))]"



text \<open>
  A model output with a rule of hyphens between its two bullets, and a view of the endpoint
  that returns it.
\<close>

definition ruled_text :: pystr where
  "ruled_text = ascii ''Built X\<newline>---\<newline>Led Z''"

definition example_work :: item where
  "example_work = work_item (ascii ''w1'') (ascii ''Dev'') (ascii ''TCS'') [ascii ''aa'']"

definition ruled_view :: endpoint_view where
  "ruled_view req n = Returned (ok_response\<lparr>content := Some ruled_text\<rparr>)"

section \<open>Facts about the example data\<close>

lemma client_example: "client (example_env rd)"
  by (simp add: client_def example_env_def ascii_def)

lemma ObjectId_example: "ObjectId example_id = Some example_id"
  by (simp add: ObjectId_def example_id_def ascii_def is_hex_def lower_char_def)

section \<open>Preconditions of the endpoint\<close>

text \<open>
  Claim C7. When the embedding model is not loaded or the summarization client is not
  configured (the credential is missing or empty), the request is rejected with status 503
  and the trace is empty: nothing was fetched, embedded or sent to the endpoint.
\<close>

theorem precondition_rejected:
  assumes "\<not> ST_MODEL_LOADED e \<or> DEEPSEEK_API_KEY e = None \<or> DEEPSEEK_API_KEY e = Some []"
  shows "rank_and_summarize_resume_items e resume_id job_description current_user_id
           = (Inl (HTTPException 503), [])"
  using assms
  by (auto simp: rank_and_summarize_resume_items_def MODEL_LOADED_def client_def)

theorem precondition_rejected_witness:
  "\<not> ST_MODEL_LOADED ((example_env example_resume)\<lparr>ST_MODEL_LOADED := False\<rparr>) \<and>
   rank_and_summarize_resume_items ((example_env example_resume)\<lparr>ST_MODEL_LOADED := False\<rparr>)
     example_id (ascii ''python'') (ascii ''u1'') = (Inl (HTTPException 503), []) \<and>
   DEEPSEEK_API_KEY ((example_env example_resume)\<lparr>DEEPSEEK_API_KEY := None\<rparr>) = None \<and>
   rank_and_summarize_resume_items ((example_env example_resume)\<lparr>DEEPSEEK_API_KEY := None\<rparr>)
     example_id (ascii ''python'') (ascii ''u1'') = (Inl (HTTPException 503), [])"
  using precondition_rejected [of "(example_env example_resume)\<lparr>ST_MODEL_LOADED := False\<rparr>"
          example_id "ascii ''python''" "ascii ''u1''"]
        precondition_rejected [of "(example_env example_resume)\<lparr>DEEPSEEK_API_KEY := None\<rparr>"
          example_id "ascii ''python''" "ascii ''u1''"]
  by (simp add: example_env_def)

section \<open>A r\'esum\'e without items\<close>

text \<open>
  Claim C9. When the stored r\'esum\'e has no work experience and no project (the key is
  missing or the list is empty), the request returns the response with two empty lists,
  and the trace holds the fetch only: nothing was embedded, ranked or summarized.
\<close>

theorem empty_resume_empty_result:
  assumes "ST_MODEL_LOADED e" and "MODEL_LOADED e"
    and "ObjectId resume_id = Some oid" and "find_one e oid = Some rd"
    and "user_id rd = Some current_user_id"
    and "work_experience rd = None \<or> work_experience rd = Some []"
    and "projects rd = None \<or> projects rd = Some []"
  shows "rank_and_summarize_resume_items e resume_id job_description current_user_id
           = (Inr \<lparr>top_work_experiences = [], top_projects = []\<rparr>, [Fetch oid])"
proof -
  have "items_to_rank rd = Inr []"
    using assms(6,7) by (auto simp: items_to_rank_def bindE_def)
  then show ?thesis
    using assms(1-5) by (simp add: rank_and_summarize_resume_items_def)
qed

theorem empty_resume_empty_result_witness:
  "ST_MODEL_LOADED (example_env empty_resume) \<and> MODEL_LOADED (example_env empty_resume) \<and>
   ObjectId example_id = Some example_id \<and>
   find_one (example_env empty_resume) example_id = Some empty_resume \<and>
   user_id empty_resume = Some (ascii ''u1'') \<and>
   work_experience empty_resume = Some [] \<and> projects empty_resume = None \<and>
   rank_and_summarize_resume_items (example_env empty_resume) example_id (ascii ''python'')
     (ascii ''u1'') = (Inr \<lparr>top_work_experiences = [], top_projects = []\<rparr>, [Fetch example_id])"
proof -
  have a: "ST_MODEL_LOADED (example_env empty_resume)" by (simp add: example_env_def)
  have b: "MODEL_LOADED (example_env empty_resume)" by (simp add: MODEL_LOADED_def client_example)
  have c: "find_one (example_env empty_resume) example_id = Some empty_resume"
    by (simp add: example_env_def)
  have d: "user_id empty_resume = Some (ascii ''u1'')" by (simp add: empty_resume_def)
  have f: "work_experience empty_resume = Some []" "projects empty_resume = None"
    by (simp_all add: empty_resume_def)
  show ?thesis
    using empty_resume_empty_result [OF a b ObjectId_example c d, of "ascii ''python''"] a b c d f
      ObjectId_example
    by simp
qed

section \<open>The retry loop\<close>

lemma async_attempts_3:
  "async_attempts ep req 3 [0..<3] =
     (case ep req 0 of
        Returned r \<Rightarrow> (Inr (Some r), [ApiCall req])
      | Raised e0 \<Rightarrow>
          (case ep req 1 of
             Returned r \<Rightarrow> (Inr (Some r), [ApiCall req, Sleep 1, ApiCall req])
           | Raised e1 \<Rightarrow>
               (case ep req 2 of
                  Returned r \<Rightarrow>
                    (Inr (Some r), [ApiCall req, Sleep 1, ApiCall req, Sleep 2, ApiCall req])
                | Raised e2 \<Rightarrow>
                    (Inl e2, [ApiCall req, Sleep 1, ApiCall req, Sleep 2, ApiCall req]))))"
proof -
  have "[0..<3] = [0, 1, 2::nat]" by (simp add: upt_rec)
  then show ?thesis by (simp split: api_outcome.splits)
qed

lemma sync_attempts_3:
  "sync_attempts ep req 3 [0..<3] =
     (case ep req 0 of
        Returned r \<Rightarrow> (Inr (Some r), [ApiCall req])
      | Raised e0 \<Rightarrow>
          (case ep req 1 of
             Returned r \<Rightarrow> (Inr (Some r), [ApiCall req, Sleep 1, ApiCall req])
           | Raised e1 \<Rightarrow>
               (case ep req 2 of
                  Returned r \<Rightarrow>
                    (Inr (Some r), [ApiCall req, Sleep 1, ApiCall req, Sleep 2, ApiCall req])
                | Raised e2 \<Rightarrow>
                    (Inl e2, [ApiCall req, Sleep 1, ApiCall req, Sleep 2, ApiCall req]))))"
proof -
  have "[0..<3] = [0, 1, 2::nat]" by (simp add: upt_rec)
  then show ?thesis by (simp split: api_outcome.splits)
qed

lemma call_async_unfold:
  "client e \<Longrightarrow> call_deepseek_api_async e ep msgs mdl
     = async_attempts ep (request_of msgs mdl) 3 [0..<3]"
  by (simp add: call_deepseek_api_async_def request_of_def)

lemma call_sync_unfold:
  "call_deepseek_api ep msgs mdl = sync_attempts ep (request_of msgs mdl) 3 [0..<3]"
  by (simp add: call_deepseek_api_def request_of_def)

lemma less_3_cases: "(\<forall>n<3. P (n::nat)) \<longleftrightarrow> P 0 \<and> P 1 \<and> P 2"
proof -
  have "{..<3::nat} = {0, 1, 2}" by auto
  then have "(\<forall>n<3. P n) \<longleftrightarrow> (\<forall>n\<in>{0, 1, 2}. P n)" by (metis lessThan_iff)
  then show ?thesis by simp
qed

text \<open>
  Claim C2, as the code has it. With the client configured, a call whose three attempts all
  fail makes exactly three requests, sleeps 1 unit after the first failure and 2 units after
  the second, sleeps no more after the third, and raises the error of the third attempt; and
  a call raises only when all three attempts have failed. The standalone client does the
  same.
\<close>

theorem three_attempts_two_delays:
  assumes "client e"
  shows "((\<forall>n<3. is_raised (ep (request_of msgs mdl) n)) \<longrightarrow>
            (\<exists>err. ep (request_of msgs mdl) 2 = Raised err \<and>
               call_deepseek_api_async e ep msgs mdl =
                 (Inl err, [ApiCall (request_of msgs mdl), Sleep 1, ApiCall (request_of msgs mdl),
                            Sleep 2, ApiCall (request_of msgs mdl)]) \<and>
               call_deepseek_api ep msgs mdl =
                 (Inl err, [ApiCall (request_of msgs mdl), Sleep 1, ApiCall (request_of msgs mdl),
                            Sleep 2, ApiCall (request_of msgs mdl)]))) \<and>
         ((\<exists>err. fst (call_deepseek_api_async e ep msgs mdl) = Inl err) \<longrightarrow>
            (\<forall>n<3. is_raised (ep (request_of msgs mdl) n))) \<and>
         ((\<exists>err. fst (call_deepseek_api ep msgs mdl) = Inl err) \<longrightarrow>
            (\<forall>n<3. is_raised (ep (request_of msgs mdl) n)))"
  unfolding less_3_cases call_async_unfold [OF assms] call_sync_unfold
    async_attempts_3 sync_attempts_3
  by (auto simp: is_raised_def split: api_outcome.splits)

theorem three_attempts_two_delays_witness:
  "client (example_env example_resume) \<and>
   is_raised (failing_view (request_of [] (ascii ''deepseek-chat'')) 0) \<and>
   is_raised (failing_view (request_of [] (ascii ''deepseek-chat'')) 1) \<and>
   is_raised (failing_view (request_of [] (ascii ''deepseek-chat'')) 2) \<and>
   call_deepseek_api_async (example_env example_resume) failing_view [] (ascii ''deepseek-chat'') =
     (Inl (ApiError [2]),
      [ApiCall (request_of [] (ascii ''deepseek-chat'')), Sleep 1,
       ApiCall (request_of [] (ascii ''deepseek-chat'')), Sleep 2,
       ApiCall (request_of [] (ascii ''deepseek-chat''))]) \<and>
   call_deepseek_api failing_view [] (ascii ''deepseek-chat'') =
     (Inl (ApiError [2]),
      [ApiCall (request_of [] (ascii ''deepseek-chat'')), Sleep 1,
       ApiCall (request_of [] (ascii ''deepseek-chat'')), Sleep 2,
       ApiCall (request_of [] (ascii ''deepseek-chat''))])"
  using three_attempts_two_delays [OF client_example, of failing_view "[]" "ascii ''deepseek-chat''"
          example_resume]
  by (simp add: less_3_cases is_raised_def failing_view_def client_example)

text \<open>
  Claim C2 as stated names the delays 1, 2, 4. A call that fails three times sleeps twice,
  1 and 2 units: the third failure is raised at once (line 59, \<open>attempt < max_retries - 1\<close>).
\<close>

theorem backoff_delays_counterexample:
  "delays (snd (call_deepseek_api_async (example_env example_resume) failing_view []
                  (ascii ''deepseek-chat''))) = [1, 2] \<and>
   delays (snd (call_deepseek_api failing_view [] (ascii ''deepseek-chat''))) = [1, 2] \<and>
   delays (snd (call_deepseek_api_async (example_env example_resume) failing_view []
                  (ascii ''deepseek-chat''))) \<noteq> [1, 2, 4]"
  by (simp add: call_async_unfold [OF client_example] call_sync_unfold async_attempts_3
      sync_attempts_3 failing_view_def delays_def)

section \<open>An item without bullets\<close>

text \<open>
  Claim C6, as the code has it. For an item whose bullet list is empty (or \<open>None\<close>, or
  missing), \<open>summarize_item\<close> returns the item itself, unchanged, and its trace is empty: no
  request was sent. What it returns is the dictionary, with no success flag.
\<close>

theorem empty_bullets_no_call:
  assumes "it ''description_bullets'' = Some (PList []) \<or> it ''description_bullets'' = Some PNone
           \<or> it ''description_bullets'' = None"
  shows "summarize_item e ep it item_type = (Inr it, [])"
  using assms by (auto simp: summarize_item_def get_def truthy_def Let_def)

theorem empty_bullets_no_call_witness:
  "empty_item ''description_bullets'' = Some (PList []) \<and>
   summarize_item (example_env example_resume) answering_view empty_item (ascii ''project'')
     = (Inr empty_item, [])"
  using empty_bullets_no_call [of empty_item "example_env example_resume" answering_view
          "ascii ''project''"]
  by (simp add: empty_item_def project_item_def)

text \<open>
  Claim C6 as stated has the call return \<open>success=true\<close>. The value returned is the item
  alone: for the example item it has no entry \<open>success\<close>.
\<close>

theorem empty_bullets_no_success_flag:
  "fst (summarize_item (example_env example_resume) answering_view empty_item (ascii ''project''))
     = Inr empty_item \<and>
   empty_item ''success'' = None"
  by (simp add: summarize_item_def get_def truthy_def Let_def empty_item_def project_item_def)

section \<open>Ranking and selection\<close>

lemma top_items_acc:
  "top_items ranked wx pj =
     (wx @ take (2 - length wx) (map item_data (filter is_work_ex ranked)),
      pj @ take (3 - length pj) (map item_data (filter is_project ranked)))"
proof (induction ranked arbitrary: wx pj)
  case Nil
  then show ?case by simp
next
  case (Cons x ranked)
  obtain score category it where x: "x = (score, category, it)"
    by (cases x) auto
  show ?case
    unfolding x
    by (simp add: Cons.IH is_work_ex_def is_project_def item_data_def take_Cons'
        Suc_diff_Suc)
qed

lemma top_items_take:
  "top_items ranked [] [] =
     (map item_data (take 2 (filter is_work_ex ranked)),
      map item_data (take 3 (filter is_project ranked)))"
  by (simp add: top_items_acc take_map)

lemma descending_map: "descending (map f xs) = sorted (map (\<lambda>x. - f x) xs)"
  by (induction xs) (auto simp: descending_def)

lemma descending_take_drop:
  assumes "descending (map f xs)" and "x \<in> set (take n xs)" and "y \<in> set (drop n xs)"
  shows "f y \<le> f x"
proof -
  have "sorted_wrt (\<lambda>a b. f b \<le> f a) (take n xs @ drop n xs)"
    using assms(1) by (simp add: descending_def sorted_wrt_map)
  then show ?thesis
    using assms(2,3) unfolding sorted_wrt_append by blast
qed

lemma descending_filter:
  "descending (map f xs) \<Longrightarrow> descending (map f (filter P xs))"
  by (simp add: descending_def sorted_wrt_map sorted_wrt_filter)

text \<open>
  Claim C5. The ranking is a permutation of the scored input (nothing added, nothing
  dropped, one entry per input item), its scores descend, and entries of equal score keep
  the order of the input; each entry carries the similarity of the job description and the
  item's text, and its category and dictionary. This holds for every input list, the empty
  one included.
\<close>

theorem ranking_sorted_stable:
  "mset (ranked_items e job_description items) = mset (scored_items e job_description items) \<and>
   length (ranked_items e job_description items) = length items \<and>
   descending (map fst (ranked_items e job_description items)) \<and>
   (\<forall>s. filter (\<lambda>x. fst x = s) (ranked_items e job_description items)
        = filter (\<lambda>x. fst x = s) (scored_items e job_description items)) \<and>
   scored_items e job_description items =
     map (\<lambda>(category, it, text).
            (cos_sim e job_description text, category,
             it(''score'' \<mapsto> PFloat (cos_sim e job_description text)))) items"
proof -
  have stable: "filter (\<lambda>x. fst x = s) (ranked_items e job_description items)
        = filter (\<lambda>x. fst x = s) (scored_items e job_description items)" for s
    using sort_key_stable [of "\<lambda>x. - fst x" "- s" "scored_items e job_description items"]
    by (simp add: ranked_items_def)
  have "descending (map fst (ranked_items e job_description items))"
    by (simp add: descending_map ranked_items_def)
  moreover have "length (scored_items e job_description items) = length items"
    by (simp add: scored_items_def)
  ultimately show ?thesis
    using stable by (simp add: ranked_items_def scored_items_def Let_def)
qed

text \<open>
  Claim C3. From a ranking the filtering loop selects the first two work experiences and
  the first three projects, in the order of the ranking: never more than the cap, all of
  them when there are fewer, and nothing else. When the ranking descends by score, each
  selected entry scores at least as high as every entry of its category left out, and the
  selected lists descend.
\<close>

theorem top_k_selection:
  "fst (top_items ranked [] []) = map item_data (take 2 (filter is_work_ex ranked)) \<and>
   snd (top_items ranked [] []) = map item_data (take 3 (filter is_project ranked)) \<and>
   length (fst (top_items ranked [] [])) \<le> 2 \<and>
   length (snd (top_items ranked [] [])) \<le> 3 \<and>
   (descending (map fst ranked) \<longrightarrow>
      (\<forall>x \<in> set (take 2 (filter is_work_ex ranked)).
         \<forall>y \<in> set (drop 2 (filter is_work_ex ranked)). fst y \<le> fst x) \<and>
      (\<forall>x \<in> set (take 3 (filter is_project ranked)).
         \<forall>y \<in> set (drop 3 (filter is_project ranked)). fst y \<le> fst x) \<and>
      descending (map fst (take 2 (filter is_work_ex ranked))) \<and>
      descending (map fst (take 3 (filter is_project ranked)))) \<and>
   (length (filter is_work_ex ranked) \<le> 2 \<longrightarrow>
      fst (top_items ranked [] []) = map item_data (filter is_work_ex ranked)) \<and>
   (length (filter is_project ranked) \<le> 3 \<longrightarrow>
      snd (top_items ranked [] []) = map item_data (filter is_project ranked))"
proof -
  have desc_take: "descending (map fst (take n (filter P ranked)))"
    if "descending (map fst ranked)" for n and P :: "real \<times> string \<times> item \<Rightarrow> bool"
  proof -
    have "sorted_wrt (\<lambda>a b. fst b \<le> fst a) (filter P ranked)"
      using descending_filter [OF that, of P] by (simp add: descending_def sorted_wrt_map)
    then have "sorted_wrt (\<lambda>a b. fst b \<le> fst a) (take n (filter P ranked))"
      by (rule sorted_wrt_take)
    then show ?thesis by (simp add: descending_def sorted_wrt_map)
  qed
  show ?thesis
    using descending_take_drop [OF descending_filter, of fst ranked]
    by (auto simp: top_items_take desc_take)
qed

theorem top_k_selection_witness:
  "descending (map fst example_ranked) \<and> length (filter is_project example_ranked) \<le> 3 \<and>
   fst (top_items example_ranked [] []) =
     [work_item (ascii ''w1'') [] [] [], work_item (ascii ''w2'') [] [] []] \<and>
   snd (top_items example_ranked [] []) = [project_item (ascii ''p1'') [] []] \<and>
   length (filter is_work_ex (take 3 example_ranked)) \<le> 2 \<and>
   fst (top_items (take 3 example_ranked) [] []) =
     [work_item (ascii ''w1'') [] [] [], work_item (ascii ''w2'') [] [] []]"
  using top_k_selection [of example_ranked] top_k_selection [of "take 3 example_ranked"]
  by (simp add: example_ranked_def descending_def is_work_ex_def is_project_def item_data_def)

section \<open>Strings: stripping and splitting\<close>

lemma split_nl_not_Nil [simp]: "split_nl cs \<noteq> []"
  by (induction cs) (auto split: list.splits)

lemma strip_Nil [simp]: "strip [] = []"
  by (simp add: strip_def lstrip_def rstrip_def)

lemma strip_snoc_space: "isspace c \<Longrightarrow> strip (l @ [c]) = strip l"
  by (simp add: strip_def lstrip_def rstrip_def)

lemma strip_Cons_space:
  assumes "isspace c"
  shows "strip (c # l) = strip l"
proof (cases "\<forall>x\<in>set l. isspace x")
  case True
  then have a: "dropWhile isspace (rev l @ [c]) = []" and b: "dropWhile isspace (rev l) = []"
    using assms by (simp_all add: dropWhile_append2)
  show ?thesis
    unfolding strip_def lstrip_def rstrip_def rev.simps a b by simp
next
  case False
  then have a: "dropWhile isspace (rev l @ [c]) = dropWhile isspace (rev l) @ [c]"
    by (auto simp: dropWhile_append1)
  show ?thesis
    unfolding strip_def lstrip_def rstrip_def rev.simps a using assms by simp
qed

lemma stripped_lines_Cons_space:
  assumes "isspace c"
  shows "stripped_lines (c # cs) = stripped_lines cs"
proof (cases "c = 10")
  case True
  then show ?thesis by (simp add: stripped_lines_def)
next
  case False
  obtain l ls where "split_nl cs = l # ls"
    by (cases "split_nl cs") auto
  then show ?thesis
    using False assms by (simp add: stripped_lines_def strip_Cons_space)
qed

lemma split_nl_snoc:
  "split_nl (cs @ [c]) =
     (if c = 10 then split_nl cs @ [[]]
      else butlast (split_nl cs) @ [last (split_nl cs) @ [c]])"
proof (induction cs)
  case Nil
  then show ?case by simp
next
  case (Cons d cs)
  obtain l ls where l: "split_nl cs = l # ls"
    by (cases "split_nl cs") auto
  show ?case
  proof (cases "c = 10")
    case True
    then show ?thesis using Cons l by simp
  next
    case False
    then show ?thesis
      using Cons l by (cases ls) (auto split: list.splits)
  qed
qed

lemma stripped_lines_snoc_space:
  assumes "isspace c"
  shows "stripped_lines (cs @ [c]) = stripped_lines cs"
proof (cases "c = 10")
  case True
  then show ?thesis by (simp add: stripped_lines_def split_nl_snoc)
next
  case False
  obtain bl la where "split_nl cs = bl @ [la]"
    by (cases "split_nl cs" rule: rev_cases) auto
  then show ?thesis
    using False assms by (simp add: stripped_lines_def split_nl_snoc strip_snoc_space)
qed

lemma stripped_lines_lstrip: "stripped_lines (lstrip isspace cs) = stripped_lines cs"
  by (induction cs) (simp_all add: lstrip_def stripped_lines_Cons_space)

lemma stripped_lines_rev_dropWhile:
  "stripped_lines (rev (dropWhile isspace ys)) = stripped_lines (rev ys)"
  by (induction ys) (simp_all add: stripped_lines_snoc_space)

lemma stripped_lines_strip: "stripped_lines (strip text) = stripped_lines text"
  using stripped_lines_rev_dropWhile [of "rev text"]
  by (simp add: strip_def stripped_lines_lstrip rstrip_def)

lemma bullet_lines_stripped:
  "bullet_lines text =
     map (\<lambda>line. strip (lstrip (\<lambda>c. c \<in> set bullet_glyphs) line)) (stripped_lines text)"
  by (simp add: bullet_lines_def stripped_lines_def filter_map comp_def)

lemma spec_parse_stripped:
  assumes "\<forall>line \<in> set (split_nl text). \<not> glyph_only line"
  shows "spec_parse text =
     map (\<lambda>line. strip (lstrip (\<lambda>c. c \<in> set bullet_glyphs) line)) (stripped_lines text)"
proof -
  have "filter (\<lambda>line. line \<noteq> [])
          (map (\<lambda>line. strip (lstrip (\<lambda>c. c \<in> set bullet_glyphs) line)) (map strip ls))
        = map (\<lambda>line. strip (lstrip (\<lambda>c. c \<in> set bullet_glyphs) line))
            (filter (\<lambda>line. line \<noteq> []) (map strip ls))"
    if "\<forall>line \<in> set ls. \<not> glyph_only line" for ls
    using that by (induction ls) (auto simp: glyph_only_def lstrip_def)
  then show ?thesis
    using assms by (simp add: spec_parse_def stripped_lines_def)
qed

lemma parser_agrees:
  "\<forall>line \<in> set (split_nl text). \<not> glyph_only line \<Longrightarrow> bullet_lines (strip text) = spec_parse text"
  by (simp add: bullet_lines_stripped spec_parse_stripped stripped_lines_strip)

section \<open>Validation and the summary of one item\<close>

lemma is_str_cases: "is_str v \<Longrightarrow> \<exists>s. v = Some (PStr s)"
  by (auto simp: is_str_def split: option.splits pyval.splits)

lemma is_list_cases: "is_list v \<Longrightarrow> \<exists>xs. v = Some (PList xs)"
  by (auto simp: is_list_def split: option.splits pyval.splits)

lemma is_opt_str_cases: "is_opt_str v \<Longrightarrow> v = None \<or> v = Some PNone \<or> (\<exists>s. v = Some (PStr s))"
  by (auto simp: is_opt_str_def split: option.splits pyval.splits)

lemma has_score_cases: "has_score it \<Longrightarrow> \<exists>r. it ''score'' = Some (PFloat r)"
  by (auto simp: has_score_def split: option.splits pyval.splits)

lemma opt_str_field_stored:
  "is_opt_str (it k) \<Longrightarrow> opt_str_field (it k) = Inr (opt_str_at it k)"
  by (auto dest!: is_opt_str_cases simp: opt_str_field_def opt_str_at_def)

lemma str_field_stored: "is_str (it k) \<Longrightarrow> str_field (it k) = Inr (str_at it k)"
  by (auto dest!: is_str_cases simp: str_field_def str_at_def)

lemma opt_list_field_stored:
  "is_list (it ''description_bullets'') \<Longrightarrow>
   opt_list_field (it ''description_bullets'') = Inr (Some (bullets_of it))"
  by (auto dest!: is_list_cases simp: opt_list_field_def bullets_of_def)

lemma float_field_stored: "has_score it \<Longrightarrow> float_field e (it ''score'') = Inr (score_at it)"
  by (auto dest!: has_score_cases simp: float_field_def score_at_def)

lemma validate_work_stored:
  assumes "stored_work_ex it" and "has_score it"
  shows "validate_RankedWorkExperience e it = Inr (work_record it)"
  using assms
  by (simp add: validate_RankedWorkExperience_def stored_work_ex_def work_record_def
      str_field_stored opt_str_field_stored opt_list_field_stored float_field_stored)

lemma validate_project_stored:
  assumes "stored_project it" and "has_score it"
  shows "validate_RankedProject e it = Inr (project_record it)"
  using assms
  by (simp add: validate_RankedProject_def stored_project_def project_record_def
      str_field_stored opt_str_field_stored opt_list_field_stored float_field_stored)

lemma summarize_item_list:
  assumes "client e" and "it ''description_bullets'' = Some (PList bs)" and "bs \<noteq> []"
  shows "summarize_item e ep it item_type =
     (case async_attempts ep (item_request e it item_type) 3 [0..<3] of
        (Inr (Some response), evs) \<Rightarrow>
          (case content response of
             Some text \<Rightarrow>
               (Inr (it(''description_bullets'' \<mapsto> PList (bullet_lines (strip text)))), evs)
           | None \<Rightarrow> (Inr it, evs))
      | (Inr None, evs) \<Rightarrow> (Inr it, evs)
      | (Inl err, evs) \<Rightarrow> (Inr it, evs))"
  using assms
  by (simp add: summarize_item_def get_def truthy_def join_val_def Let_def item_request_def
      bullets_of_def call_deepseek_api_async_def request_of_def)

lemma summarize_item_result:
  assumes "is_list (it ''description_bullets'')"
  shows "\<exists>it'. fst (summarize_item e ep it item_type) = Inr it' \<and>
           (it' = it \<or> (\<exists>bs'. it' = it(''description_bullets'' \<mapsto> PList bs')))"
proof -
  obtain bs where bs: "it ''description_bullets'' = Some (PList bs)"
    using assms by (auto dest: is_list_cases)
  show ?thesis
    using bs
    by (auto simp: summarize_item_def get_def truthy_def join_val_def Let_def
        split: prod.splits sum.splits option.splits)
qed

lemma summarized_result:
  assumes "is_list (it ''description_bullets'')"
  shows "fst (summarize_item e (endpoint e i) it item_type) = Inr (summarized e i it item_type)"
    and "summarized e i it item_type = it \<or>
         (\<exists>bs'. summarized e i it item_type = it(''description_bullets'' \<mapsto> PList bs'))"
  using summarize_item_result [where it = it and e = e and ep = "endpoint e i" and item_type = item_type, OF assms]
  by (auto simp: summarized_def)

lemma summarized_other_keys:
  assumes "is_list (it ''description_bullets'')" and "k \<noteq> ''description_bullets''"
  shows "summarized e i it item_type k = it k"
  using summarized_result(2) [where it = it and e = e and i = i and item_type = item_type, OF assms(1)] assms(2) by auto

lemma summarized_is_list:
  assumes "is_list (it ''description_bullets'')"
  shows "is_list (summarized e i it item_type ''description_bullets'')"
  using summarized_result(2) [where it = it and e = e and i = i and item_type = item_type, OF assms(1)] assms
  by (auto simp: is_list_def)

lemma summarized_stored_work:
  assumes "stored_work_ex it"
  shows "stored_work_ex (summarized e i it item_type)"
proof -
  have l: "is_list (it ''description_bullets'')"
    using assms by (simp add: stored_work_ex_def)
  show ?thesis
    using assms summarized_is_list [where it = it and e = e and i = i and item_type = item_type, OF l]
    by (simp add: stored_work_ex_def summarized_other_keys [where it = it, OF l])
qed

lemma summarized_stored_project:
  assumes "stored_project it"
  shows "stored_project (summarized e i it item_type)"
proof -
  have l: "is_list (it ''description_bullets'')"
    using assms by (simp add: stored_project_def)
  show ?thesis
    using assms summarized_is_list [where it = it and e = e and i = i and item_type = item_type, OF l]
    by (simp add: stored_project_def summarized_other_keys [where it = it, OF l])
qed

lemma summarized_score:
  assumes "is_list (it ''description_bullets'')"
  shows "score_at (summarized e i it item_type) = score_at it"
    and "has_score (summarized e i it item_type) = has_score it"
  by (simp_all add: score_at_def has_score_def summarized_other_keys [where it = it, OF assms])


lemma summarize_item_failed:
  assumes "client e" and "is_list (it ''description_bullets'')"
    and "\<forall>n<3. is_raised (ep (item_request e it item_type) n)"
  shows "summarize_item e ep it item_type =
     (Inr it,
      if bullets_of it = [] then []
      else [ApiCall (item_request e it item_type), Sleep 1,
            ApiCall (item_request e it item_type), Sleep 2,
            ApiCall (item_request e it item_type)])"
proof -
  obtain bs where bs: "it ''description_bullets'' = Some (PList bs)"
    using assms(2) by (auto dest: is_list_cases)
  show ?thesis
  proof (cases "bs = []")
    case True
    then show ?thesis
      using bs by (simp add: summarize_item_def get_def truthy_def bullets_of_def)
  next
    case False
    then show ?thesis
      using assms(3) bs
      unfolding summarize_item_list [where it = it, OF assms(1) bs False] async_attempts_3 less_3_cases
      by (auto simp: is_raised_def bullets_of_def split: api_outcome.splits)
  qed
qed

lemma summarize_item_answered:
  assumes "client e" and "it ''description_bullets'' = Some (PList bs)" and "bs \<noteq> []"
    and "ep (item_request e it item_type) 0 = Returned response"
    and "content response = Some text"
  shows "summarize_item e ep it item_type =
     (Inr (it(''description_bullets'' \<mapsto> PList (bullet_lines (strip text)))),
      [ApiCall (item_request e it item_type)])"
  unfolding summarize_item_list [where it = it, OF assms(1-3)] async_attempts_3
  using assms(4,5) by simp

lemma nth_tasks:
  "t < length wx \<Longrightarrow> tasks wx pj ! t = (wx ! t, ascii ''work experience'')"
  "length wx \<le> t \<Longrightarrow> t < length wx + length pj \<Longrightarrow>
     tasks wx pj ! t = (pj ! (t - length wx), ascii ''project'')"
  by (simp_all add: tasks_def nth_append)

section \<open>The pipeline on a stored r\'esum\'e\<close>

lemma text_of_score [simp]: "text_of (it(''score'' \<mapsto> v)) = text_of it"
  by (simp add: text_of_def bullets_of_def)

lemma collect_items_stored:
  assumes "\<forall>it \<in> set xs. is_list (it ''description_bullets'')"
  shows "collect_items category xs = Inr (map (\<lambda>it. (category, it, text_of it)) xs)"
  using assms
proof (induction xs)
  case Nil
  then show ?case by simp
next
  case (Cons it xs)
  then obtain bs where "it ''description_bullets'' = Some (PList bs)"
    by (auto dest: is_list_cases)
  then show ?case
    using Cons
    by (simp add: bindE_def get_def join_val_def text_of_def bullets_of_def)
qed

lemma items_to_rank_stored:
  assumes "stored_resume rd"
  shows "items_to_rank rd =
     Inr (map (\<lambda>it. (''Work Ex'', it, text_of it)) (ws_of rd) @
          map (\<lambda>it. (''Project'', it, text_of it)) (ps_of rd))"
proof -
  have "\<forall>it \<in> set (ws_of rd). is_list (it ''description_bullets'')"
    and "\<forall>it \<in> set (ps_of rd). is_list (it ''description_bullets'')"
    using assms
    by (auto simp: stored_resume_def ws_of_def ps_of_def list_all_iff stored_work_ex_def
        stored_project_def)
  then show ?thesis
    by (simp add: items_to_rank_def collect_items_stored bindE_def ws_of_def ps_of_def)
qed

lemma stored_work_ex_score: "stored_work_ex it \<Longrightarrow> stored_work_ex (it(''score'' \<mapsto> v))"
  by (simp add: stored_work_ex_def)

lemma stored_project_score: "stored_project it \<Longrightarrow> stored_project (it(''score'' \<mapsto> v))"
  by (simp add: stored_project_def)

lemma ranked_entries:
  assumes "stored_resume rd" and "items_to_rank rd = Inr items"
  shows "\<forall>x \<in> set (ranked_items e jd items). ranked_entry e jd x"
proof -
  have ws: "\<forall>it \<in> set (ws_of rd). stored_work_ex it"
    and ps: "\<forall>it \<in> set (ps_of rd). stored_project it"
    using assms(1) by (auto simp: stored_resume_def ws_of_def ps_of_def list_all_iff)
  have items: "items = map (\<lambda>it. (''Work Ex'', it, text_of it)) (ws_of rd) @
          map (\<lambda>it. (''Project'', it, text_of it)) (ps_of rd)"
    using assms items_to_rank_stored by simp
  have "\<forall>x \<in> set (scored_items e jd items). ranked_entry e jd x"
    using ws ps
    by (auto simp: items scored_items_def ranked_entry_def item_data_def is_work_ex_def
        is_project_def stored_work_ex_score stored_project_score Let_def)
  then show ?thesis by (simp add: ranked_items_def)
qed

lemma descending_ranked: "descending (map fst (ranked_items e jd items))"
  by (simp add: descending_map ranked_items_def)

lemma descending_take_filter:
  assumes "descending (map f xs)"
  shows "descending (map f (take n (filter P xs)))"
proof -
  have "sorted_wrt (\<lambda>a b. f b \<le> f a) (filter P xs)"
    using descending_filter [OF assms, of P] by (simp add: descending_def sorted_wrt_map)
  then have "sorted_wrt (\<lambda>a b. f b \<le> f a) (take n (filter P xs))"
    by (rule sorted_wrt_take)
  then show ?thesis by (simp add: descending_def sorted_wrt_map)
qed

lemma selected_facts:
  assumes "stored_resume rd" and "selected e jd rd = (wx, pj)"
  shows "\<forall>it \<in> set wx. stored_work_ex it \<and> it ''score'' = Some (PFloat (cos_sim e jd (text_of it)))"
    and "\<forall>it \<in> set pj. stored_project it \<and> it ''score'' = Some (PFloat (cos_sim e jd (text_of it)))"
    and "descending (map score_at wx)" and "descending (map score_at pj)"
proof -
  obtain items where items: "items_to_rank rd = Inr items"
    using items_to_rank_stored [OF assms(1)] by blast
  let ?r = "ranked_items e jd items"
  have re: "\<forall>x \<in> set ?r. ranked_entry e jd x"
    using ranked_entries [OF assms(1) items] .
  have wx: "wx = map item_data (take 2 (filter is_work_ex ?r))"
    and pj: "pj = map item_data (take 3 (filter is_project ?r))"
    using assms(2) by (simp_all add: selected_def items top_items_take)
  have sub: "set (take n (filter P ?r)) \<subseteq> {x \<in> set ?r. P x}" for n P
    using set_take_subset [of n "filter P ?r"] by auto
  have w: "stored_work_ex (item_data x) \<and>
           item_data x ''score'' = Some (PFloat (cos_sim e jd (text_of (item_data x))))"
    if "x \<in> set ?r" and "is_work_ex x" for x
    using re that by (simp add: ranked_entry_def)
  have p: "stored_project (item_data x) \<and>
           item_data x ''score'' = Some (PFloat (cos_sim e jd (text_of (item_data x))))"
    if "x \<in> set ?r" and "is_project x" for x
  proof -
    have "\<not> is_work_ex x"
      using that(2) by (auto simp: is_project_def is_work_ex_def)
    then show ?thesis
      using re that by (simp add: ranked_entry_def)
  qed
  show "\<forall>it \<in> set wx. stored_work_ex it \<and> it ''score'' = Some (PFloat (cos_sim e jd (text_of it)))"
    unfolding wx using sub [of 2 is_work_ex] w by auto
  show "\<forall>it \<in> set pj. stored_project it \<and> it ''score'' = Some (PFloat (cos_sim e jd (text_of it)))"
    unfolding pj using sub [of 3 is_project] p by auto
  have sc: "x \<in> set ?r \<Longrightarrow> score_at (item_data x) = fst x" for x
    using re by (auto simp: ranked_entry_def score_at_def)
  have "map score_at wx = map fst (take 2 (filter is_work_ex ?r))"
    unfolding wx using sub [of 2 is_work_ex] by (auto simp: sc)
  then show "descending (map score_at wx)"
    using descending_take_filter [OF descending_ranked] by simp
  have "map score_at pj = map fst (take 3 (filter is_project ?r))"
    unfolding pj using sub [of 3 is_project] by (auto simp: sc)
  then show "descending (map score_at pj)"
    using descending_take_filter [OF descending_ranked] by simp
qed

lemma all_results_Inr: "all_results (map Inr xs) = Inr xs"
  by (induction xs) (simp_all add: bindE_def)

lemma enumerate_map: "enumerate n (map f xs) = map (\<lambda>(i, x). (i, f x)) (enumerate n xs)"
  by (induction xs arbitrary: n) simp_all

lemma snd_in_enumerate: "p \<in> set (enumerate n xs) \<Longrightarrow> snd p \<in> set xs"
  by (metis in_set_zipE enumerate_eq_zip prod.collapse)

lemma run_tasks_stored:
  assumes "\<forall>t \<in> set ts. is_list (fst t ''description_bullets'')"
  shows "map fst (run_tasks e ts) =
     map Inr (map (\<lambda>(i, (it, item_type)). summarized e i it item_type) (enumerate 0 ts))"
proof -
  have "fst (summarize_item e (endpoint e i) it item_type) = Inr (summarized e i it item_type)"
    if "(i, (it, item_type)) \<in> set (enumerate 0 ts)" for i it item_type
  proof -
    have "is_list (it ''description_bullets'')"
      using assms snd_in_enumerate [OF that] by auto
    then show ?thesis
      by (rule summarized_result(1))
  qed
  then show ?thesis
    by (auto simp: run_tasks_def)
qed

lemma gather_stored:
  assumes "\<forall>t \<in> set ts. is_list (fst t ''description_bullets'')"
  shows "fst (gather e ts) =
     Inr (map (\<lambda>(i, (it, item_type)). summarized e i it item_type) (enumerate 0 ts))"
  unfolding gather_def Let_def fst_conv run_tasks_stored [OF assms]
  by (rule all_results_Inr)

lemma results_of_tasks:
  "map (\<lambda>(i, (it, item_type)). summarized e i it item_type) (enumerate 0 (tasks wx pj)) =
     work_results e wx @ project_results e (length wx) pj"
  by (simp add: tasks_def enumerate_append_eq enumerate_map work_results_def
      project_results_def case_prod_unfold comp_def)

lemma length_work_results [simp]: "length (work_results e wx) = length wx"
  by (simp add: work_results_def)

lemma length_project_results [simp]: "length (project_results e n pj) = length pj"
  by (simp add: project_results_def)

lemma nth_work_results:
  "k < length wx \<Longrightarrow>
   work_results e wx ! k = summarized e k (wx ! k) (ascii ''work experience'')"
  by (simp add: work_results_def nth_enumerate_eq)

lemma nth_project_results:
  "k < length pj \<Longrightarrow>
   project_results e n pj ! k = summarized e (n + k) (pj ! k) (ascii ''project'')"
  by (simp add: project_results_def nth_enumerate_eq)

lemma work_results_stored:
  assumes "\<forall>it \<in> set wx. stored_work_ex it \<and> has_score it"
  shows "\<forall>it \<in> set (work_results e wx). stored_work_ex it \<and> has_score it"
proof
  fix r assume "r \<in> set (work_results e wx)"
  then obtain i it where p: "(i, it) \<in> set (enumerate 0 wx)"
    and r: "r = summarized e i it (ascii ''work experience'')"
    by (auto simp: work_results_def)
  have it: "stored_work_ex it" "has_score it"
    using assms snd_in_enumerate [OF p] by auto
  then have l: "is_list (it ''description_bullets'')"
    by (simp add: stored_work_ex_def)
  show "stored_work_ex r \<and> has_score r"
    using it summarized_stored_work [OF it(1)]
      summarized_score(2) [where it = it, OF l] by (simp add: r)
qed

lemma project_results_stored:
  assumes "\<forall>it \<in> set pj. stored_project it \<and> has_score it"
  shows "\<forall>it \<in> set (project_results e n pj). stored_project it \<and> has_score it"
proof
  fix r assume "r \<in> set (project_results e n pj)"
  then obtain i it where p: "(i, it) \<in> set (enumerate n pj)"
    and r: "r = summarized e i it (ascii ''project'')"
    by (auto simp: project_results_def)
  have it: "stored_project it" "has_score it"
    using assms snd_in_enumerate [OF p] by auto
  then have l: "is_list (it ''description_bullets'')"
    by (simp add: stored_project_def)
  show "stored_project r \<and> has_score r"
    using it summarized_stored_project [OF it(1)]
      summarized_score(2) [where it = it, OF l] by (simp add: r)
qed

lemma score_at_work_results:
  assumes "\<forall>it \<in> set wx. is_list (it ''description_bullets'')"
  shows "map score_at (work_results e wx) = map score_at wx"
proof -
  have "score_at (summarized e i it (ascii ''work experience'')) = score_at it"
    if "(i, it) \<in> set (enumerate 0 wx)" for i it
    using assms snd_in_enumerate [OF that] summarized_score(1) [where it = it] by auto
  then have "map score_at (work_results e wx) = map (score_at \<circ> snd) (enumerate 0 wx)"
    by (auto simp: work_results_def)
  then show ?thesis
    by (simp del: map_map add: map_map [symmetric])
qed

lemma score_at_project_results:
  assumes "\<forall>it \<in> set pj. is_list (it ''description_bullets'')"
  shows "map score_at (project_results e n pj) = map score_at pj"
proof -
  have "score_at (summarized e i it (ascii ''project'')) = score_at it"
    if "(i, it) \<in> set (enumerate n pj)" for i it
    using assms snd_in_enumerate [OF that] summarized_score(1) [where it = it] by auto
  then have "map score_at (project_results e n pj) = map (score_at \<circ> snd) (enumerate n pj)"
    by (auto simp: project_results_def)
  then show ?thesis
    by (simp del: map_map add: map_map [symmetric])
qed

lemma id_set_stored:
  assumes "\<forall>it \<in> set xs. is_str (it key)"
  shows "id_set key xs = Inr ((\<lambda>it. the (it key)) ` set xs)"
  using assms
proof (induction xs)
  case Nil
  then show ?case by simp
next
  case (Cons it xs)
  then obtain s where "it key = Some (PStr s)"
    by (auto dest: is_str_cases)
  then show ?case using Cons by (simp add: bindE_def)
qed

lemma final_lists_stored:
  assumes "\<forall>it \<in> set rs.
      (stored_work_ex it \<and> has_score it \<and> the (it ''work_ex_id'') \<in> W) \<or>
      (stored_project it \<and> has_score it \<and> the (it ''project_id'') \<in> P)"
  shows "final_lists e W P rs =
     Inr (map work_record (filter (\<lambda>it. it ''work_ex_id'' \<noteq> None) rs),
          map project_record (filter (\<lambda>it. it ''work_ex_id'' = None) rs))"
  using assms
proof (induction rs)
  case Nil
  then show ?case by simp
next
  case (Cons it rs)
  have IH: "final_lists e W P rs =
     Inr (map work_record (filter (\<lambda>it. it ''work_ex_id'' \<noteq> None) rs),
          map project_record (filter (\<lambda>it. it ''work_ex_id'' = None) rs))"
    using Cons by simp
  consider (w) "stored_work_ex it" "has_score it" "the (it ''work_ex_id'') \<in> W"
    | (p) "stored_project it" "has_score it" "the (it ''project_id'') \<in> P"
    using Cons.prems by auto
  then show ?case
  proof cases
    case w
    then obtain s where s: "it ''work_ex_id'' = Some (PStr s)"
      by (auto simp: stored_work_ex_def dest: is_str_cases)
    then have "has_id it ''work_ex_id'' W = Inr True"
      using w(3) by (simp add: has_id_def)
    then show ?thesis
      using s by (simp add: bindE_def IH validate_work_stored [OF w(1,2)])
  next
    case p
    then have n: "it ''work_ex_id'' = None"
      by (simp add: stored_project_def)
    obtain s where s: "it ''project_id'' = Some (PStr s)"
      using p(1) by (auto simp: stored_project_def dest: is_str_cases)
    have "has_id it ''work_ex_id'' W = Inr False" "has_id it ''project_id'' P = Inr True"
      using n s p(3) by (simp_all add: has_id_def)
    then show ?thesis
      using n by (simp add: bindE_def IH validate_project_stored [OF p(1,2)])
  qed
qed

lemma final_response_stored:
  assumes W: "\<forall>it \<in> set Wr. stored_work_ex it \<and> has_score it"
    and P: "\<forall>it \<in> set Pr. stored_project it \<and> has_score it"
    and rs: "set rs \<subseteq> set Wr \<union> set Pr"
  shows "final_response e Wr Pr rs =
     Inr \<lparr>top_work_experiences =
            sort_key (\<lambda>x. - we_score x)
              (map work_record (filter (\<lambda>it. it ''work_ex_id'' \<noteq> None) rs)),
          top_projects =
            sort_key (\<lambda>x. - pr_score x)
              (map project_record (filter (\<lambda>it. it ''work_ex_id'' = None) rs))\<rparr>"
proof -
  have a: "id_set ''work_ex_id'' Wr = Inr ((\<lambda>it. the (it ''work_ex_id'')) ` set Wr)"
    using W by (intro id_set_stored) (simp add: stored_work_ex_def)
  have b: "id_set ''project_id'' Pr = Inr ((\<lambda>it. the (it ''project_id'')) ` set Pr)"
    using P by (intro id_set_stored) (simp add: stored_project_def)
  have c: "\<forall>it \<in> set rs.
      (stored_work_ex it \<and> has_score it \<and>
         the (it ''work_ex_id'') \<in> (\<lambda>it. the (it ''work_ex_id'')) ` set Wr) \<or>
      (stored_project it \<and> has_score it \<and>
         the (it ''project_id'') \<in> (\<lambda>it. the (it ''project_id'')) ` set Pr)"
    using W P rs by blast
  show ?thesis
    by (simp add: final_response_def a b bindE_def final_lists_stored [OF c])
qed

lemma filter_work_append:
  assumes "\<forall>it \<in> set Wr. stored_work_ex it" and "\<forall>it \<in> set Pr. stored_project it"
  shows "filter (\<lambda>it. it ''work_ex_id'' \<noteq> None) (Wr @ Pr) = Wr"
    and "filter (\<lambda>it. it ''work_ex_id'' = None) (Wr @ Pr) = Pr"
proof -
  have w: "it ''work_ex_id'' \<noteq> None" if "it \<in> set Wr" for it
    using assms(1) that by (auto simp: stored_work_ex_def dest: is_str_cases)
  have p: "it ''work_ex_id'' = None" if "it \<in> set Pr" for it
    using assms(2) that by (auto simp: stored_project_def)
  show "filter (\<lambda>it. it ''work_ex_id'' \<noteq> None) (Wr @ Pr) = Wr"
    using w p by (simp add: filter_id_conv filter_empty_conv)
  show "filter (\<lambda>it. it ''work_ex_id'' = None) (Wr @ Pr) = Pr"
    using w p by (simp add: filter_id_conv filter_empty_conv)
qed

lemma has_score_iff: "it ''score'' = Some (PFloat r) \<Longrightarrow> has_score it"
  by (simp add: has_score_def)

lemma rank_and_summarize_stored:
  assumes rd: "stored_resume rd" and items: "items_to_rank rd = Inr items"
    and sel: "selected e jd rd = (wx, pj)"
  shows "fst (rank_and_summarize e jd items) =
     Inr \<lparr>top_work_experiences = map work_record (work_results e wx),
          top_projects = map project_record (project_results e (length wx) pj)\<rparr>"
proof -
  note sf = selected_facts [OF rd sel]
  have top: "top_items (ranked_items e jd items) [] [] = (wx, pj)"
    using sel by (simp add: selected_def items)
  have wx: "\<forall>it \<in> set wx. stored_work_ex it \<and> has_score it"
    and pj: "\<forall>it \<in> set pj. stored_project it \<and> has_score it"
    using sf(1,2) by (auto intro: has_score_iff)
  have wl: "\<forall>it \<in> set wx. is_list (it ''description_bullets'')"
    and pl: "\<forall>it \<in> set pj. is_list (it ''description_bullets'')"
    using wx pj by (auto simp: stored_work_ex_def stored_project_def)
  have tl: "\<forall>t \<in> set (tasks wx pj). is_list (fst t ''description_bullets'')"
    using wl pl by (auto simp: tasks_def)
  let ?W = "work_results e wx" and ?P = "project_results e (length wx) pj"
  have g: "fst (gather e (tasks wx pj)) = Inr (?W @ ?P)"
    by (simp add: gather_stored [OF tl] results_of_tasks)
  have W: "\<forall>it \<in> set ?W. stored_work_ex it \<and> has_score it"
    using work_results_stored [OF wx] .
  have P: "\<forall>it \<in> set ?P. stored_project it \<and> has_score it"
    using project_results_stored [OF pj] .
  have fw: "filter (\<lambda>it. it ''work_ex_id'' \<noteq> None) (?W @ ?P) = ?W"
    and fp: "filter (\<lambda>it. it ''work_ex_id'' = None) (?W @ ?P) = ?P"
    using filter_work_append [of ?W ?P] W P by blast+
  have sw: "sort_key (\<lambda>x. - we_score x) (map work_record ?W) = map work_record ?W"
  proof (rule sort_key_id_if_sorted)
    have "map we_score (map work_record ?W) = map score_at wx"
      using score_at_work_results [OF wl, of e] by (simp add: work_record_def comp_def)
    then have "descending (map we_score (map work_record ?W))"
      using sf(3) by simp
    then show "sorted (map (\<lambda>x. - we_score x) (map work_record ?W))"
      by (simp only: descending_map)
  qed
  have sp: "sort_key (\<lambda>x. - pr_score x) (map project_record ?P) = map project_record ?P"
  proof (rule sort_key_id_if_sorted)
    have "map pr_score (map project_record ?P) = map score_at pj"
      using score_at_project_results [OF pl, of e "length wx"]
      by (simp add: project_record_def comp_def)
    then have "descending (map pr_score (map project_record ?P))"
      using sf(4) by simp
    then show "sorted (map (\<lambda>x. - pr_score x) (map project_record ?P))"
      by (simp only: descending_map)
  qed
  have fr: "final_response e ?W ?P (?W @ ?P) =
     Inr \<lparr>top_work_experiences = map work_record ?W, top_projects = map project_record ?P\<rparr>"
    unfolding final_response_stored [OF W P, of "?W @ ?P" e, OF set_append [THEN equalityD1]]
      fw fp sw sp ..
  have "fst (rank_and_summarize e jd items) =
      bindE (fst (gather e (tasks wx pj)))
        (\<lambda>results. final_response e (take (length wx) results) (drop (length wx) results) results)"
    by (simp add: rank_and_summarize_def Let_def top case_prod_unfold)
  then show ?thesis
    by (simp add: g bindE_def fr)
qed

lemma pipeline_response:
  assumes "ST_MODEL_LOADED e" and "MODEL_LOADED e"
    and "ObjectId resume_id = Some oid" and "find_one e oid = Some rd"
    and "user_id rd = Some current_user_id"
    and rd: "stored_resume rd" and sel: "selected e jd rd = (wx, pj)"
  shows "fst (rank_and_summarize_resume_items e resume_id jd current_user_id) =
     Inr \<lparr>top_work_experiences = map work_record (work_results e wx),
          top_projects = map project_record (project_results e (length wx) pj)\<rparr>"
proof -
  obtain items where items: "items_to_rank rd = Inr items"
    using items_to_rank_stored [OF rd] by blast
  show ?thesis
  proof (cases "items = []")
    case True
    then have "wx = []" "pj = []"
      using sel by (simp_all add: selected_def items ranked_items_def scored_items_def)
    then show ?thesis
      using assms(1-5) True
      by (simp add: rank_and_summarize_resume_items_def items work_results_def
          project_results_def)
  next
    case False
    obtain r evs where r: "rank_and_summarize e jd items = (r, evs)"
      by (cases "rank_and_summarize e jd items")
    then have "r = Inr \<lparr>top_work_experiences = map work_record (work_results e wx),
          top_projects = map project_record (project_results e (length wx) pj)\<rparr>"
      using rank_and_summarize_stored [OF rd items sel] by simp
    then show ?thesis
      using assms(1-5) False
      by (simp add: rank_and_summarize_resume_items_def items r)
  qed
qed








section \<open>The example request\<close>

lemma example_env_simps:
  "ST_MODEL_LOADED (example_env rd)"
  "MODEL_LOADED (example_env rd)"
  "find_one (example_env rd) example_id = Some rd"
  "cos_sim (example_env rd) jd text = real (length text) / 10"
  "endpoint (example_env rd) 0 req n = Raised (ApiError (ascii ''timeout''))"
  "0 < i \<Longrightarrow> endpoint (example_env rd) i req n = Returned ok_response"
  by (simp_all add: MODEL_LOADED_def client_example) (simp_all add: example_env_def)

lemma stored_example: "stored_resume example_resume"
  by (simp add: stored_resume_def example_resume_def stored_work_ex_def stored_project_def
      work_item_def project_item_def is_str_def is_opt_str_def is_list_def)

lemma work_item_bullets [simp]:
  "work_item i t c bs ''description_bullets'' = Some (PList bs)"
  by (simp add: work_item_def)

lemma project_item_bullets [simp]:
  "project_item i n bs ''description_bullets'' = Some (PList bs)"
  by (simp add: project_item_def)

lemma selected_example:
  "selected (example_env example_resume) jd example_resume = (example_wx, example_pj)"
  by (simp add: selected_def items_to_rank_def example_resume_def bindE_def get_def
      join_val_def ranked_items_def scored_items_def example_env_simps ascii_def
      example_wx_def example_pj_def Let_def)

lemma bullet_lines_ok: "bullet_lines (strip (ascii ''- Led Z'')) = [ascii ''Led Z'']"
  by (simp add: bullet_lines_def strip_def lstrip_def rstrip_def ascii_def isspace_def
      bullet_glyphs_def)

lemma summarized_example:
  assumes "0 < i" and "it ''description_bullets'' = Some (PList bs)" and "bs \<noteq> []"
  shows "bullets_of (summarized (example_env rd) i it item_type) = [ascii ''Led Z'']"
proof -
  have "summarize_item (example_env rd) (endpoint (example_env rd) i) it item_type =
     (Inr (it(''description_bullets'' \<mapsto> PList (bullet_lines (strip (ascii ''- Led Z''))))),
      [ApiCall (item_request (example_env rd) it item_type)])"
    by (rule summarize_item_answered [where it = it and response = ok_response,
          OF client_example assms(2,3)])
       (simp_all add: example_env_simps(6) [OF assms(1)] ok_response_def)
  then show ?thesis
    by (simp add: summarized_def bullets_of_def bullet_lines_ok)
qed

lemma example_wx_facts:
  "length example_wx = 2" "length example_pj = 1"
  "str_at (example_wx ! 0) ''work_ex_id'' = ascii ''w1''"
  "str_at (example_wx ! Suc 0) ''work_ex_id'' = ascii ''w2''"
  "str_at (example_pj ! 0) ''project_id'' = ascii ''p1''"
  "bullets_of (example_wx ! 0) = [ascii ''aa'']"
  "text_of (example_wx ! 0) = ascii ''aa''"
  "text_of (example_wx ! Suc 0) = ascii ''b''"
  "text_of (example_pj ! 0) = ascii ''ccc''"
  "(example_wx ! Suc 0) ''description_bullets'' = Some (PList [ascii ''b''])"
  "(example_pj ! 0) ''description_bullets'' = Some (PList [ascii ''ccc''])"
  by (simp_all add: example_wx_def example_pj_def str_at_def bullets_of_def text_of_def
      work_item_def project_item_def)

lemma example_user: "user_id example_resume = Some (ascii ''u1'')"
  by (simp add: example_resume_def)

lemma example_task0:
  "tasks example_wx example_pj ! 0 = (example_wx ! 0, ascii ''work experience'')"
  by (simp add: nth_tasks(1) example_wx_facts)

section \<open>Reassembly\<close>



section \<open>A failed summary\<close>

text \<open>
  Claim C1, as the code has it. Let task \<open>t\<close> of the fan-out, summarizing a selected item,
  fail at all three attempts. Then \<open>summarize_item\<close> returns the item unchanged (after three
  requests and the two delays, when the item has bullets); the request still returns a
  response with one entry for every selected item; the entry of the failed item carries its
  identifier, its original bullets and its ranking score; and the entry of every other item
  carries the bullets its own task handed back. Nothing in what is returned marks the
  failure.
\<close>

theorem failed_item_retained:
  assumes "ST_MODEL_LOADED e" and "MODEL_LOADED e"
    and "ObjectId resume_id = Some oid" and "find_one e oid = Some rd"
    and "user_id rd = Some current_user_id"
    and "stored_resume rd" and "selected e jd rd = (wx, pj)"
    and t: "t < length wx + length pj" and task: "tasks wx pj ! t = (it, item_type)"
    and fail: "\<forall>n<3. is_raised (endpoint e t (item_request e it item_type) n)"
  shows "summarize_item e (endpoint e t) it item_type =
           (Inr it,
            if bullets_of it = [] then []
            else [ApiCall (item_request e it item_type), Sleep 1,
                  ApiCall (item_request e it item_type), Sleep 2,
                  ApiCall (item_request e it item_type)]) \<and>
     (\<exists>resp.
        fst (rank_and_summarize_resume_items e resume_id jd current_user_id) = Inr resp \<and>
        length (top_work_experiences resp) = length wx \<and>
        length (top_projects resp) = length pj \<and>
        (t < length wx \<longrightarrow>
           work_ex_id (top_work_experiences resp ! t) = str_at it ''work_ex_id'' \<and>
           we_description_bullets (top_work_experiences resp ! t) = Some (bullets_of it) \<and>
           we_score (top_work_experiences resp ! t) = cos_sim e jd (text_of it)) \<and>
        (length wx \<le> t \<longrightarrow>
           project_id (top_projects resp ! (t - length wx)) = str_at it ''project_id'' \<and>
           pr_description_bullets (top_projects resp ! (t - length wx)) = Some (bullets_of it) \<and>
           pr_score (top_projects resp ! (t - length wx)) = cos_sim e jd (text_of it)) \<and>
        (\<forall>k<length wx. k \<noteq> t \<longrightarrow>
           we_description_bullets (top_work_experiences resp ! k) =
             Some (bullets_of (summarized e k (wx ! k) (ascii ''work experience'')))) \<and>
        (\<forall>k<length pj. length wx + k \<noteq> t \<longrightarrow>
           pr_description_bullets (top_projects resp ! k) =
             Some (bullets_of (summarized e (length wx + k) (pj ! k) (ascii ''project'')))))"
proof -
  let ?W = "work_results e wx" and ?P = "project_results e (length wx) pj"
  let ?resp = "\<lparr>top_work_experiences = map work_record ?W,
                top_projects = map project_record ?P\<rparr>"
  note sf = selected_facts [OF assms(6,7)]
  have cl: "client e"
    using assms(2) by (simp add: MODEL_LOADED_def)
  have wl: "\<forall>x \<in> set wx. is_list (x ''description_bullets'')"
    and pl: "\<forall>x \<in> set pj. is_list (x ''description_bullets'')"
    using sf(1,2) by (auto simp: stored_work_ex_def stored_project_def)
  have it_in: "it \<in> set wx \<union> set pj"
  proof (cases "t < length wx")
    case True
    then show ?thesis using nth_tasks(1) [OF True, of pj] task by auto
  next
    case False
    then have "it = pj ! (t - length wx)" and "t - length wx < length pj"
      using nth_tasks(2) [of wx t pj] task t by auto
    then show ?thesis by auto
  qed
  then have l: "is_list (it ''description_bullets'')"
    using wl pl by auto
  have s: "summarize_item e (endpoint e t) it item_type =
           (Inr it,
            if bullets_of it = [] then []
            else [ApiCall (item_request e it item_type), Sleep 1,
                  ApiCall (item_request e it item_type), Sleep 2,
                  ApiCall (item_request e it item_type)])"
    by (rule summarize_item_failed [where it = it and e = e and ep = "endpoint e t" and item_type = item_type, OF cl l fail])
  then have same: "summarized e t it item_type = it"
    by (simp add: summarized_def)
  have r: "fst (rank_and_summarize_resume_items e resume_id jd current_user_id) = Inr ?resp"
    using pipeline_response [OF assms(1-7)] .
  have score: "score_at x = cos_sim e jd (text_of x)" if "x \<in> set wx \<union> set pj" for x
    using sf(1,2) that by (auto simp: score_at_def)
  have work: "work_ex_id (map work_record ?W ! t) = str_at it ''work_ex_id'' \<and>
           we_description_bullets (map work_record ?W ! t) = Some (bullets_of it) \<and>
           we_score (map work_record ?W ! t) = cos_sim e jd (text_of it)"
    if "t < length wx"
  proof -
    have "wx ! t = it" "item_type = ascii ''work experience''"
      using nth_tasks(1) [OF that, of pj] task by auto
    then show ?thesis
      using that same score [OF it_in]
      by (simp add: nth_work_results work_record_def)
  qed
  have proj: "project_id (map project_record ?P ! (t - length wx)) = str_at it ''project_id'' \<and>
           pr_description_bullets (map project_record ?P ! (t - length wx))
             = Some (bullets_of it) \<and>
           pr_score (map project_record ?P ! (t - length wx)) = cos_sim e jd (text_of it)"
    if "length wx \<le> t"
  proof -
    have k: "t - length wx < length pj"
      using t that by simp
    have "pj ! (t - length wx) = it" "item_type = ascii ''project''"
      using nth_tasks(2) [OF that t] task by auto
    then show ?thesis
      using that k same score [OF it_in]
      by (simp add: nth_project_results project_record_def)
  qed
  have sibw: "we_description_bullets (map work_record ?W ! k) =
             Some (bullets_of (summarized e k (wx ! k) (ascii ''work experience'')))"
    if "k < length wx" for k
    using that by (simp add: nth_work_results work_record_def)
  have sibp: "pr_description_bullets (map project_record ?P ! k) =
             Some (bullets_of (summarized e (length wx + k) (pj ! k) (ascii ''project'')))"
    if "k < length pj" for k
    using that by (simp add: nth_project_results project_record_def)
  have "\<exists>resp.
        fst (rank_and_summarize_resume_items e resume_id jd current_user_id) = Inr resp \<and>
        length (top_work_experiences resp) = length wx \<and>
        length (top_projects resp) = length pj \<and>
        (t < length wx \<longrightarrow>
           work_ex_id (top_work_experiences resp ! t) = str_at it ''work_ex_id'' \<and>
           we_description_bullets (top_work_experiences resp ! t) = Some (bullets_of it) \<and>
           we_score (top_work_experiences resp ! t) = cos_sim e jd (text_of it)) \<and>
        (length wx \<le> t \<longrightarrow>
           project_id (top_projects resp ! (t - length wx)) = str_at it ''project_id'' \<and>
           pr_description_bullets (top_projects resp ! (t - length wx)) = Some (bullets_of it) \<and>
           pr_score (top_projects resp ! (t - length wx)) = cos_sim e jd (text_of it)) \<and>
        (\<forall>k<length wx. k \<noteq> t \<longrightarrow>
           we_description_bullets (top_work_experiences resp ! k) =
             Some (bullets_of (summarized e k (wx ! k) (ascii ''work experience'')))) \<and>
        (\<forall>k<length pj. length wx + k \<noteq> t \<longrightarrow>
           pr_description_bullets (top_projects resp ! k) =
             Some (bullets_of (summarized e (length wx + k) (pj ! k) (ascii ''project''))))"
  proof (intro exI [of _ ?resp] conjI)
    show "fst (rank_and_summarize_resume_items e resume_id jd current_user_id) = Inr ?resp"
      by (rule r)
  qed (use work proj sibw sibp in simp_all)
  with s show ?thesis by (rule conjI)
qed

theorem failed_item_retained_witness:
  "ST_MODEL_LOADED (example_env example_resume) \<and>
   MODEL_LOADED (example_env example_resume) \<and>
   ObjectId example_id = Some example_id \<and>
   find_one (example_env example_resume) example_id = Some example_resume \<and>
   user_id example_resume = Some (ascii ''u1'') \<and>
   stored_resume example_resume \<and>
   selected (example_env example_resume) (ascii ''python'') example_resume
     = (example_wx, example_pj) \<and>
   tasks example_wx example_pj ! 0 = (example_wx ! 0, ascii ''work experience'') \<and>
   is_raised (endpoint (example_env example_resume) 0
      (item_request (example_env example_resume) (example_wx ! 0) (ascii ''work experience'')) 0) \<and>
   is_raised (endpoint (example_env example_resume) 0
      (item_request (example_env example_resume) (example_wx ! 0) (ascii ''work experience'')) 1) \<and>
   is_raised (endpoint (example_env example_resume) 0
      (item_request (example_env example_resume) (example_wx ! 0) (ascii ''work experience'')) 2) \<and>
   fst (summarize_item (example_env example_resume) (endpoint (example_env example_resume) 0)
          (example_wx ! 0) (ascii ''work experience'')) = Inr (example_wx ! 0) \<and>
   (\<exists>resp.
      fst (rank_and_summarize_resume_items (example_env example_resume) example_id
             (ascii ''python'') (ascii ''u1'')) = Inr resp \<and>
      length (top_work_experiences resp) = 2 \<and> length (top_projects resp) = 1 \<and>
      work_ex_id (top_work_experiences resp ! 0) = ascii ''w1'' \<and>
      we_description_bullets (top_work_experiences resp ! 0) = Some [ascii ''aa''] \<and>
      we_score (top_work_experiences resp ! 0) = 2 / 10 \<and>
      we_description_bullets (top_work_experiences resp ! 1) = Some [ascii ''Led Z''] \<and>
      pr_description_bullets (top_projects resp ! 0) = Some [ascii ''Led Z''])"
proof -
  let ?e = "example_env example_resume"
  let ?it = "example_wx ! 0"
  let ?ty = "ascii ''work experience''"
  have fail: "\<forall>n<3. is_raised (endpoint ?e 0 (item_request ?e ?it ?ty) n)"
    by (simp add: example_env_simps is_raised_def)
  have t: "0 < length example_wx + length example_pj"
    by (simp add: example_wx_facts)
  note th = failed_item_retained [OF example_env_simps(1,2) ObjectId_example
      example_env_simps(3) example_user stored_example selected_example t example_task0 fail]
  from th obtain resp where
    r: "fst (rank_and_summarize_resume_items ?e example_id (ascii ''python'') (ascii ''u1''))
          = Inr resp"
    and len: "length (top_work_experiences resp) = length example_wx"
      "length (top_projects resp) = length example_pj"
    and failed: "0 < length example_wx \<longrightarrow>
           work_ex_id (top_work_experiences resp ! 0) = str_at ?it ''work_ex_id'' \<and>
           we_description_bullets (top_work_experiences resp ! 0) = Some (bullets_of ?it) \<and>
           we_score (top_work_experiences resp ! 0) = cos_sim ?e (ascii ''python'') (text_of ?it)"
    and sibw: "\<forall>k<length example_wx. k \<noteq> 0 \<longrightarrow>
           we_description_bullets (top_work_experiences resp ! k) =
             Some (bullets_of (summarized ?e k (example_wx ! k) (ascii ''work experience'')))"
    and sibp: "\<forall>k<length example_pj. length example_wx + k \<noteq> 0 \<longrightarrow>
           pr_description_bullets (top_projects resp ! k) =
             Some (bullets_of (summarized ?e (length example_wx + k) (example_pj ! k)
                (ascii ''project'')))"
    by blast
  have s: "fst (summarize_item ?e (endpoint ?e 0) ?it ?ty) = Inr ?it"
    using th by simp
  have se1: "bullets_of (summarized ?e 1 (example_wx ! 1) (ascii ''work experience''))
               = [ascii ''Led Z'']"
    by (rule summarized_example [where bs = "[ascii ''b'']"]) (simp_all add: example_wx_facts)
  have se2: "bullets_of (summarized ?e 2 (example_pj ! 0) (ascii ''project''))
               = [ascii ''Led Z'']"
    by (rule summarized_example [where bs = "[ascii ''ccc'']"]) (simp_all add: example_wx_facts)
  have w1: "we_description_bullets (top_work_experiences resp ! 1) = Some [ascii ''Led Z'']"
    using sibw [rule_format, of 1] se1 by (simp add: example_wx_facts)
  have p0: "pr_description_bullets (top_projects resp ! 0) = Some [ascii ''Led Z'']"
    using sibp [rule_format, of 0] se2 by (simp add: example_wx_facts)
  have f0: "work_ex_id (top_work_experiences resp ! 0) = ascii ''w1''"
    "we_description_bullets (top_work_experiences resp ! 0) = Some [ascii ''aa'']"
    "we_score (top_work_experiences resp ! 0) = 2 / 10"
    using failed by (simp_all add: example_wx_facts example_env_simps ascii_def)
  have "\<exists>resp.
      fst (rank_and_summarize_resume_items ?e example_id (ascii ''python'') (ascii ''u1''))
        = Inr resp \<and>
      length (top_work_experiences resp) = 2 \<and> length (top_projects resp) = 1 \<and>
      work_ex_id (top_work_experiences resp ! 0) = ascii ''w1'' \<and>
      we_description_bullets (top_work_experiences resp ! 0) = Some [ascii ''aa''] \<and>
      we_score (top_work_experiences resp ! 0) = 2 / 10 \<and>
      we_description_bullets (top_work_experiences resp ! 1) = Some [ascii ''Led Z''] \<and>
      pr_description_bullets (top_projects resp ! 0) = Some [ascii ''Led Z'']"
    using r len f0 w1 p0 by (intro exI [of _ resp]) (simp add: example_wx_facts)
  then show ?thesis
    using example_env_simps(1,2,3) [of example_resume] ObjectId_example example_user
      stored_example selected_example [of "ascii ''python''"] example_task0 fail s
    by (simp add: less_3_cases)
qed

text \<open>
  Claim C1 as stated has the result of the failed item marked \<open>success = false\<close>. The
  result of \<open>summarize_item\<close> is the item's dictionary, and it has no entry \<open>success\<close>; the
  response models have no such field either.
\<close>

theorem failed_item_no_success_flag:
  "fst (summarize_item (example_env example_resume) (endpoint (example_env example_resume) 0)
          (example_wx ! 0) (ascii ''work experience'')) = Inr (example_wx ! 0) \<and>
   (example_wx ! 0) ''success'' = None"
proof -
  have "is_list ((example_wx ! 0) ''description_bullets'')"
    by (simp add: example_wx_def is_list_def)
  moreover have "\<forall>n<3. is_raised (endpoint (example_env example_resume) 0
      (item_request (example_env example_resume) (example_wx ! 0) (ascii ''work experience'')) n)"
    by (simp add: example_env_simps is_raised_def)
  ultimately have "fst (summarize_item (example_env example_resume)
      (endpoint (example_env example_resume) 0) (example_wx ! 0) (ascii ''work experience''))
      = Inr (example_wx ! 0)"
    using summarize_item_failed [where it = "example_wx ! 0" and e = "example_env example_resume"
        and ep = "endpoint (example_env example_resume) 0"
        and item_type = "ascii ''work experience''", OF client_example]
    by simp
  then show ?thesis
    by (simp add: example_wx_def work_item_def)
qed

section \<open>The parser\<close>

lemma parser_example:
  "bullet_lines (strip (ascii ''- Built X\<newline>* Improved Y\<newline>\<newline>Led Z''))
     = [ascii ''Built X'', ascii ''Improved Y'', ascii ''Led Z'']"
  by (simp add: bullet_lines_def strip_def lstrip_def rstrip_def ascii_def isspace_def
      bullet_glyphs_def)

text \<open>
  On the specification's own example, and on every text in which no line holds glyphs only,
  the parser returns what the specification describes (\<open>parser_example\<close>, \<open>parser_agrees\<close>).
\<close>

text \<open>
  Claim C4 has the parser drop every empty line. The comprehension tests a line for
  emptiness (\<open>if line.strip()\<close>) before it removes the glyphs, so a line that holds glyphs
  only passes the test and comes out empty. For the model output
  \<open>"Built X\n---\nLed Z"\<close> the parser returns \<open>["Built X", "", "Led Z"]\<close>, where the steps of
  the specification give \<open>["Built X", "Led Z"]\<close>, and \<open>summarize_item\<close> writes the list with the
  empty bullet into the item.
\<close>

theorem glyph_only_line_kept:
  "bullet_lines (strip ruled_text) = [ascii ''Built X'', [], ascii ''Led Z''] \<and>
   spec_parse ruled_text = [ascii ''Built X'', ascii ''Led Z''] \<and>
   fst (summarize_item (example_env example_resume) ruled_view example_work (ascii ''project''))
     = Inr (example_work(''description_bullets'' \<mapsto>
              PList [ascii ''Built X'', [], ascii ''Led Z'']))"
proof -
  have a: "bullet_lines (strip ruled_text) = [ascii ''Built X'', [], ascii ''Led Z'']"
    by (simp add: ruled_text_def bullet_lines_def strip_def lstrip_def rstrip_def ascii_def
        isspace_def bullet_glyphs_def)
  have b: "spec_parse ruled_text = [ascii ''Built X'', ascii ''Led Z'']"
    by (simp add: ruled_text_def spec_parse_def strip_def lstrip_def rstrip_def ascii_def
        isspace_def bullet_glyphs_def)
  have "summarize_item (example_env example_resume) ruled_view example_work (ascii ''project'')
      = (Inr (example_work(''description_bullets'' \<mapsto> PList (bullet_lines (strip ruled_text)))),
         [ApiCall (item_request (example_env example_resume) example_work (ascii ''project''))])"
    by (rule summarize_item_answered [where it = example_work and bs = "[ascii ''aa'']"
          and response = "ok_response\<lparr>content := Some ruled_text\<rparr>", OF client_example])
       (simp_all add: example_work_def ruled_view_def)
  then show ?thesis
    using a b by simp
qed

section \<open>The two summarizers\<close>

lemma async_sync_attempts:
  "async_attempts ep req m xs = sync_attempts ep req m xs"
  by (induction xs) (simp_all split: api_outcome.splits)

lemma standalone_messages:
  "summarize_description_bullets ep title bs item_type =
     (case sync_attempts ep
             (request_of (item_messages item_type title (join (ascii ''\<newline>'') bs))
                (ascii ''deepseek-chat'')) 3 [0..<3] of
        (Inr (Some response), evs) \<Rightarrow>
          (case content response of
             Some text \<Rightarrow>
               (\<lparr>bullets = bullet_lines (strip text),
                 input_tokens = prompt_tokens response,
                 output_tokens = completion_tokens response,
                 success = True, error = None\<rparr>, evs)
           | None \<Rightarrow>
               (\<lparr>bullets = [], input_tokens = 0, output_tokens = 0, success = False,
                 error = Some AttributeError\<rparr>, evs))
      | (Inr None, evs) \<Rightarrow>
          (\<lparr>bullets = [], input_tokens = 0, output_tokens = 0, success = False,
            error = Some TypeError\<rparr>, evs)
      | (Inl err, evs) \<Rightarrow>
          (\<lparr>bullets = [], input_tokens = 0, output_tokens = 0, success = False,
            error = Some err\<rparr>, evs))"
  unfolding summarize_description_bullets_def Let_def call_sync_unfold item_messages_def ..

lemma standalone_answered:
  "summarize_description_bullets answering_view title bs item_type =
     (\<lparr>bullets = [ascii ''Led Z''], input_tokens = 10, output_tokens = 3,
       success = True, error = None\<rparr>,
      [ApiCall (request_of (item_messages item_type title (join (ascii ''\<newline>'') bs))
                  (ascii ''deepseek-chat''))])"
  unfolding standalone_messages sync_attempts_3
  by (simp add: answering_view_def ok_response_def bullet_lines_ok)

text \<open>
  Claim C10, as the code has it. For an item whose bullets are a non-empty list, and with the
  backend client configured, the backend summarizer and the standalone summarizer (given the
  item's title and bullets) do the same to the endpoint: the same requests, with the same two
  messages, temperature 0.7 and at most 512 tokens, and the same delays. When the standalone
  summarizer succeeds, the bullets it returns are the bullets the backend writes into the
  item.
\<close>

theorem summarizers_agree:
  assumes "client e" and "it ''description_bullets'' = Some (PList bs)" and "bs \<noteq> []"
  shows "snd (summarize_item e ep it item_type)
           = snd (summarize_description_bullets ep (item_title e it item_type) bs item_type) \<and>
         calls (snd (summarize_item e ep it item_type))
           = replicate (length (calls (snd (summarize_item e ep it item_type))))
               (item_request e it item_type) \<and>
         messages (item_request e it item_type)
           = item_messages item_type (item_title e it item_type) (join (ascii ''\<newline>'') bs) \<and>
         temperature (item_request e it item_type) = 7 / 10 \<and>
         max_tokens (item_request e it item_type) = 512 \<and>
         (success (fst (summarize_description_bullets ep (item_title e it item_type) bs
                          item_type)) \<longrightarrow>
            fst (summarize_item e ep it item_type) =
              Inr (it(''description_bullets'' \<mapsto>
                PList (bullets (fst (summarize_description_bullets ep
                  (item_title e it item_type) bs item_type))))))"
proof -
  have b: "bullets_of it = bs"
    using assms(2) by (simp add: bullets_of_def)
  have req: "request_of (item_messages item_type (item_title e it item_type)
               (join (ascii ''\<newline>'') bs)) (ascii ''deepseek-chat'')
             = item_request e it item_type"
    by (simp add: item_request_def b)
  show ?thesis
    unfolding summarize_item_list [where it = it, OF assms] standalone_messages req
      async_sync_attempts sync_attempts_3
    by (auto simp: calls_def item_request_def request_of_def b split: api_outcome.splits
        option.splits)
qed

theorem summarizers_agree_witness:
  "client (example_env example_resume) \<and>
   example_work ''description_bullets'' = Some (PList [ascii ''aa'']) \<and>
   snd (summarize_item (example_env example_resume) answering_view example_work
          (ascii ''project''))
     = snd (summarize_description_bullets answering_view
              (item_title (example_env example_resume) example_work (ascii ''project''))
              [ascii ''aa''] (ascii ''project'')) \<and>
   success (fst (summarize_description_bullets answering_view
              (item_title (example_env example_resume) example_work (ascii ''project''))
              [ascii ''aa''] (ascii ''project''))) \<and>
   fst (summarize_item (example_env example_resume) answering_view example_work
          (ascii ''project''))
     = Inr (example_work(''description_bullets'' \<mapsto> PList [ascii ''Led Z'']))"
proof -
  have b: "example_work ''description_bullets'' = Some (PList [ascii ''aa''])"
    by (simp add: example_work_def)
  note th = summarizers_agree [where it = example_work and e = "example_env example_resume"
      and ep = answering_view and item_type = "ascii ''project''", OF client_example b]
  show ?thesis
    using th b client_example [of example_resume] by (simp add: standalone_answered)
qed

text \<open>
  Claim C10 as stated covers every bullet list. For the empty list the backend returns the
  item at once, builds no message and sends nothing (line 77), while the standalone
  summarizer sends its request and returns what the model answered.
\<close>

theorem empty_bullets_counterexample:
  "fst (summarize_item (example_env example_resume) answering_view empty_item
          (ascii ''project'')) = Inr empty_item \<and>
   bullets_of empty_item = [] \<and>
   calls (snd (summarize_item (example_env example_resume) answering_view empty_item
                 (ascii ''project''))) = [] \<and>
   bullets (fst (summarize_description_bullets answering_view
              (item_title (example_env example_resume) empty_item (ascii ''project''))
              (bullets_of empty_item) (ascii ''project''))) = [ascii ''Led Z''] \<and>
   length (calls (snd (summarize_description_bullets answering_view
              (item_title (example_env example_resume) empty_item (ascii ''project''))
              (bullets_of empty_item) (ascii ''project'')))) = 1"
proof -
  have "empty_item ''description_bullets'' = Some (PList [])"
    by (simp add: empty_item_def)
  then have "summarize_item (example_env example_resume) answering_view empty_item
          (ascii ''project'') = (Inr empty_item, [])"
    by (simp add: summarize_item_def get_def truthy_def)
  then show ?thesis
    by (simp add: standalone_answered calls_def bullets_of_def empty_item_def)
qed

end
